theory Spec2Isabelle
  imports Complex_Main
begin

section \<open>JavaScript values used by the front end\<close>

text \<open>
  Strings are character lists. A nullable string (\<open>string | null\<close>, or an optional
  parameter) is a \<open>string option\<close>; in a condition JavaScript treats \<open>null\<close>,
  \<open>undefined\<close> and the empty string as false.
\<close>

definition truthy :: "string option \<Rightarrow> bool" where
  "truthy v = (case v of None \<Rightarrow> False | Some s \<Rightarrow> s \<noteq> [])"

text \<open>\<open>s.startsWith(p)\<close>.\<close>

definition startsWith :: "string \<Rightarrow> string \<Rightarrow> bool" where
  "startsWith p s = (take (length p) s = p)"

text \<open>\<open>s.includes(sub)\<close>: some suffix of \<open>s\<close> starts with \<open>sub\<close>.\<close>

fun includes_str :: "string \<Rightarrow> string \<Rightarrow> bool" where
  "includes_str sub [] = (sub = [])"
| "includes_str sub (c # cs) = (startsWith sub (c # cs) \<or> includes_str sub cs)"

text \<open>
  \<open>s.split(c)\<close> for a one-character separator: the pieces between the separators, in
  order; a string without separator is the only piece, and the result is never empty.
\<close>

fun split :: "char \<Rightarrow> string \<Rightarrow> string list" where
  "split c [] = [[]]"
| "split c (x # xs) =
     (if x = c then [] # split c xs
      else (case split c xs of [] \<Rightarrow> [[x]] | p # ps \<Rightarrow> (x # p) # ps))"

text \<open>\<open>xs.join(sep)\<close>.\<close>

fun join :: "string \<Rightarrow> string list \<Rightarrow> string" where
  "join sep [] = []"
| "join sep [x] = x"
| "join sep (x # y # ys) = x @ sep @ join sep (y # ys)"

text \<open>The \<open>i\<close>-th element of a destructured array: \<open>undefined\<close> when it is absent.\<close>

definition element :: "'a list \<Rightarrow> nat \<Rightarrow> 'a option" where
  "element xs i = (if i < length xs then Some (xs ! i) else None)"

text \<open>\<open>n.toString()\<close> of a non-negative integer: its decimal digits.\<close>

definition digit :: "nat \<Rightarrow> char" where
  "digit d = ''0123456789'' ! d"

function toString :: "nat \<Rightarrow> string" where
  "toString n = (if n < 10 then [digit n] else toString (n div 10) @ [digit (n mod 10)])"
  by pat_completeness auto
termination
  by (relation "measure id") auto

declare toString.simps [simp del]

text \<open>
  A thrown value: an \<open>Error\<close> with its message, or a value that is no instance of
  \<open>Error\<close> (the event a \<open>FileReader\<close> rejects with).
\<close>

datatype js_error = Error string | NotAnError

section \<open>Capture: the size of the encoded frame\<close>

text \<open>
  A JavaScript number is a binary64 floating-point number. The widths and heights are
  integers (a \<open>long\<close> or an \<open>unsigned long\<close> of the browser) and are naturals here; a
  quotient or a product, which need not be an integer, is the fraction \<open>(n, d)\<close> of the
  binary64 number it is rounded to. Rounding is to the nearest number with a significand
  of 53 bits, a tie to the even significand. The range of the exponent is not bounded
  here, which makes no difference for the sizes a \<open>long\<close> can hold: the quotient of
  \<open>capture\<close> is above \<open>1 / 2 ^ 22\<close> and its products are below \<open>2 ^ 32\<close>.
\<close>

text \<open>The number of binary digits of a natural.\<close>

function bitLength :: "nat \<Rightarrow> nat" where
  "bitLength n = (if n = 0 then 0 else Suc (bitLength (n div 2)))"
  by pat_completeness auto
termination
  by (relation "measure id") auto

declare bitLength.simps [simp del]

text \<open>
  For positive \<open>p\<close> and \<open>q\<close>, the exponent \<open>e\<close> for which \<open>p / q\<close> is at least \<open>2\<close> to the
  power \<open>e\<close> and below \<open>2\<close> to the power \<open>e + 1\<close>: the difference of the bit lengths, or
  one less.
\<close>

definition binade :: "nat \<Rightarrow> nat \<Rightarrow> int" where
  "binade p q =
     (let k = int (bitLength p) - int (bitLength q)
      in if q * 2 ^ bitLength p \<le> p * 2 ^ bitLength q then k else k - 1)"

text \<open>The integer nearest to \<open>t / q\<close>, the even one of two that are equally near.\<close>

definition roundHalfEven :: "nat \<Rightarrow> nat \<Rightarrow> nat" where
  "roundHalfEven t q =
     (let n = t div q; r = t mod q
      in if 2 * r < q then n else if q < 2 * r then n + 1 else if even n then n else n + 1)"

text \<open>
  The binary64 number nearest to \<open>p / q\<close>: the quotient is scaled by a power of two into
  the range of a 53-bit significand, rounded there, and scaled back.
\<close>

definition nearestDouble :: "nat \<Rightarrow> nat \<Rightarrow> nat \<times> nat" where
  "nearestDouble p q =
     (if p = 0 then (0, 1)
      else
        let s = 52 - binade p q
        in if 0 \<le> s then (roundHalfEven (p * 2 ^ nat s) q, 2 ^ nat s)
           else (roundHalfEven p (q * 2 ^ nat (- s)) * 2 ^ nat (- s), 1))"

text \<open>\<open>a * x\<close> for an integer \<open>a\<close> and a number \<open>x\<close>: the exact product, rounded.\<close>

definition timesDouble :: "nat \<Rightarrow> nat \<times> nat \<Rightarrow> nat \<times> nat" where
  "timesDouble a x = nearestDouble (a * fst x) (snd x)"

text \<open>
  \<open>Math.round(x)\<close>: the integer nearest to \<open>x\<close>, the greater one of two that are
  equally near, which is the integer part of \<open>x + 1/2\<close> taken exactly.
\<close>

definition mathRound :: "nat \<times> nat \<Rightarrow> int" where
  "mathRound x = int ((2 * fst x + snd x) div (2 * snd x))"

text \<open>The rational number a fraction stands for.\<close>

definition valueOf :: "nat \<times> nat \<Rightarrow> rat" where
  "valueOf x = rat_of_nat (fst x) / rat_of_nat (snd x)"

record MediaTrackSettings =
  width :: "nat option"
  height :: "nat option"

text \<open>\<open>a || b\<close> on a number that may be undefined: \<open>undefined\<close> and \<open>0\<close> give \<open>b\<close>.\<close>

definition orNumber :: "nat option \<Rightarrow> nat \<Rightarrow> nat" where
  "orNumber a b = (case a of None \<Rightarrow> b | Some n \<Rightarrow> if n = 0 then b else n)"

text \<open>
  \<open>const settings = track ? track.getSettings() : {}\<close>, then
  \<open>w = settings.width || video.videoWidth || 1280\<close> and
  \<open>h = settings.height || video.videoHeight || 720\<close>.
\<close>

definition getSettings :: "MediaTrackSettings option \<Rightarrow> MediaTrackSettings" where
  "getSettings track =
     (case track of None \<Rightarrow> \<lparr>width = None, height = None\<rparr> | Some t \<Rightarrow> t)"

definition frameWidth :: "MediaTrackSettings option \<Rightarrow> nat \<Rightarrow> nat" where
  "frameWidth track videoWidth =
     orNumber (width (getSettings track)) (orNumber (Some videoWidth) 1280)"

definition frameHeight :: "MediaTrackSettings option \<Rightarrow> nat \<Rightarrow> nat" where
  "frameHeight track videoHeight =
     orNumber (height (getSettings track)) (orNumber (Some videoHeight) 720)"

definition maxDim :: nat where
  "maxDim = 1920"

text \<open>
  \<open>let outW = w, outH = h; if (Math.max(w, h) > maxDim) { scale = maxDim / Math.max(w, h);
  outW = Math.round(w * scale); outH = Math.round(h * scale) }\<close>
\<close>

definition outputSize :: "nat \<Rightarrow> nat \<Rightarrow> int \<times> int" where
  "outputSize w h =
     (if max w h > maxDim
      then let scale = nearestDouble maxDim (max w h)
           in (mathRound (timesDouble w scale), mathRound (timesDouble h scale))
      else (int w, int h))"

text \<open>
  The canvas size of \<open>capture\<close>. The current component reads the settings of the first
  video track; the older copy of the component writes \<open>stream?.getVideoTracks?.[0]\<close>,
  which indexes the method instead of calling it, so its track is always undefined.
\<close>

definition captureSize :: "MediaTrackSettings option \<Rightarrow> nat \<Rightarrow> nat \<Rightarrow> int \<times> int" where
  "captureSize track videoWidth videoHeight =
     outputSize (frameWidth track videoWidth) (frameHeight track videoHeight)"

definition captureSizeOld :: "nat \<Rightarrow> nat \<Rightarrow> int \<times> int" where
  "captureSizeOld videoWidth videoHeight = captureSize None videoWidth videoHeight"

text \<open>
  The factor by which a frame of \<open>w\<close> by \<open>h\<close> has to be scaled for its longer side to
  become \<open>maxDim\<close>, as an exact rational, and 1 for a frame that is small enough.
\<close>

definition scaleOf :: "nat \<Rightarrow> nat \<Rightarrow> rat" where
  "scaleOf w h = (if max w h > maxDim then rat_of_nat maxDim / rat_of_nat (max w h) else 1)"

section \<open>Session storage, navigation and the console\<close>

text \<open>
  \<open>sessionStorage\<close> is a string-keyed store of strings. Where the browser denies storage
  every access throws; that is the store \<open>Unavailable\<close>. A store that is available
  accepts every write: the quota of the browser is not part of the model.
\<close>

datatype storage = Unavailable | Available "string \<rightharpoonup> string"

definition storageError :: js_error where
  "storageError = Error ''SecurityError''"

definition getItem :: "storage \<Rightarrow> string \<Rightarrow> js_error + string option" where
  "getItem s k = (case s of Unavailable \<Rightarrow> Inl storageError | Available m \<Rightarrow> Inr (m k))"

definition setItem :: "storage \<Rightarrow> string \<Rightarrow> string \<Rightarrow> js_error + storage" where
  "setItem s k v =
     (case s of Unavailable \<Rightarrow> Inl storageError | Available m \<Rightarrow> Inr (Available (m(k \<mapsto> v))))"

definition removeItem :: "storage \<Rightarrow> string \<Rightarrow> js_error + storage" where
  "removeItem s k =
     (case s of Unavailable \<Rightarrow> Inl storageError | Available m \<Rightarrow> Inr (Available (m(k := None))))"

text \<open>
  A route is a path with the value of its \<open>categories\<close> query parameter, if it has one
  (\<open>encodeURIComponent\<close> on the way out and the decoding of \<open>searchParams.get\<close> on the
  way in cancel). \<open>router.push\<close> and \<open>router.replace\<close> are recorded in order.
\<close>

datatype route = Route string "string option"

datatype navigation = Push route | Replace route

definition entryPoint :: route where
  "entryPoint = Route ''/'' None"

text \<open>\<open>console.error(label, value)\<close> and \<open>console.warn(label, value)\<close>; \<open>console.log\<close> is left out.\<close>

datatype log_entry = LogError string "js_error option"

text \<open>What running an effect or a handler of a page leaves behind.\<close>

record 'st result =
  page :: 'st
  session :: storage
  navigated :: "navigation list"
  logged :: "log_entry list"

section \<open>The capture controller (camera component)\<close>

text \<open>
  A camera stream is the list of its tracks (the constraints ask for video only), each
  with its \<open>readyState\<close> and its settings. Streams are objects: the component state holds
  a reference, an index into the list of all streams \<open>getUserMedia\<close> has handed out, and
  stopping a track changes the stream in that list.
\<close>

datatype ready_state = Live | Ended

record MediaStreamTrack =
  readyState :: ready_state
  settings :: MediaTrackSettings

type_synonym MediaStream = "MediaStreamTrack list"

text \<open>The state of \<open>CameraCapture\<close>; its \<open>error\<close> is the field \<open>cameraError\<close>.\<close>

record capture_state =
  stream :: "nat option"
  blob :: "string option"
  busy :: bool
  cameraError :: "string option"
  frozenFrame :: "string option"
  showToast :: bool
  uploadedImage :: "string option"

text \<open>
  The component together with what surrounds it: the streams handed out so far, the
  calls of \<open>getUserMedia\<close> and of \<open>video.play()\<close> that have not settled yet, whether the
  file picker is open, the files a \<open>FileReader\<close> is still reading (each given by the data
  URL the reader will produce), the size of the canvas, the two facts about the browser
  that \<open>startCamera\<close> asks for, the session storage, the router and the console.
  State updates made by one handler are committed together when the handler returns;
  \<open>track.stop()\<close> acts at once.
\<close>

record camera =
  ui :: capture_state
  streams :: "MediaStream list"
  pendingCameraRequests :: nat
  pendingPlays :: nat
  pickerOpen :: bool
  pendingReads :: "string list"
  canvas :: "int \<times> int"
  supportsGetUserMedia :: bool
  isSecure :: bool
  sessionStorage :: storage
  router :: "navigation list"
  console :: "log_entry list"

definition cameraInitial :: "bool \<Rightarrow> bool \<Rightarrow> storage \<Rightarrow> camera" where
  "cameraInitial supported secure sto =
     \<lparr>ui = \<lparr>stream = None, blob = None, busy = False, cameraError = None, frozenFrame = None,
            showToast = False, uploadedImage = None\<rparr>,
      streams = [], pendingCameraRequests = 0, pendingPlays = 0, pickerOpen = False,
      pendingReads = [], canvas = (300, 150), supportsGetUserMedia = supported, isSecure = secure,
      sessionStorage = sto, router = [], console = []\<rparr>"

text \<open>What is rendered: the video element, the centre overlay and the buttons.\<close>

definition videoMounted :: "capture_state \<Rightarrow> bool" where
  "videoMounted c = (\<not> truthy (frozenFrame c))"

definition overlayShown :: "capture_state \<Rightarrow> bool" where
  "overlayShown c = (stream c = None \<and> \<not> truthy (frozenFrame c))"

definition captureEnabled :: "capture_state \<Rightarrow> bool" where
  "captureEnabled c = (\<not> truthy (frozenFrame c) \<and> \<not> (stream c = None \<or> busy c))"

definition retryShown :: "capture_state \<Rightarrow> bool" where
  "retryShown c = truthy (frozenFrame c)"

text \<open>
  \<open>stopCamera\<close>: \<open>stream?.getTracks().forEach(t => t.stop()); setStream(null)\<close>, where
  \<open>stream\<close> is the value the calling handler closed over.
\<close>

definition stopTracks :: "MediaStream \<Rightarrow> MediaStream" where
  "stopTracks s = map (\<lambda>t. t\<lparr>readyState := Ended\<rparr>) s"

definition stopCamera :: "nat option \<Rightarrow> camera \<Rightarrow> camera" where
  "stopCamera closedOver w =
     w\<lparr>streams :=
         (case closedOver of
            None \<Rightarrow> streams w
          | Some i \<Rightarrow> if i < length (streams w)
                      then (streams w)[i := stopTracks (streams w ! i)] else streams w),
       ui := (ui w)\<lparr>stream := None\<rparr>\<rparr>"

text \<open>
  \<open>startCamera\<close> up to \<open>await getUserMedia\<close>, its continuation when the camera is granted
  (up to \<open>await video.play()\<close>, which is skipped when no video element is mounted), the
  rest of the \<open>try\<close> block with \<open>finally\<close>, and the \<open>catch\<close> with \<open>finally\<close>.
\<close>

definition startCamera :: "camera \<Rightarrow> camera" where
  "startCamera w =
     (if \<not> supportsGetUserMedia w then
        w\<lparr>ui := (ui w)\<lparr>cameraError := Some ''Camera API not supported by this browser.''\<rparr>,
          pickerOpen := True\<rparr>
      else if \<not> isSecure w then
        w\<lparr>ui := (ui w)\<lparr>cameraError :=
                 Some ''Camera requires HTTPS (or localhost). Open this page over HTTPS.''\<rparr>\<rparr>
      else
        w\<lparr>ui := (ui w)\<lparr>busy := True, cameraError := None\<rparr>,
          pendingCameraRequests := pendingCameraRequests w + 1\<rparr>)"

definition startCameraFinish :: "camera \<Rightarrow> camera" where
  "startCameraFinish w = w\<lparr>ui := (ui w)\<lparr>frozenFrame := None, busy := False\<rparr>\<rparr>"

definition startCameraGranted :: "MediaStream \<Rightarrow> camera \<Rightarrow> camera" where
  "startCameraGranted s w =
     (let w' = w\<lparr>streams := streams w @ [s],
                 ui := (ui w)\<lparr>stream := Some (length (streams w))\<rparr>,
                 pendingCameraRequests := pendingCameraRequests w - 1\<rparr>
      in if videoMounted (ui w) then w'\<lparr>pendingPlays := pendingPlays w' + 1\<rparr>
         else startCameraFinish w')"

definition startCameraDenied :: "js_error \<Rightarrow> camera \<Rightarrow> camera" where
  "startCameraDenied err w =
     w\<lparr>ui := (ui w)\<lparr>cameraError := Some ''Could not access the camera.'', busy := False\<rparr>,
       pendingCameraRequests := pendingCameraRequests w - 1,
       pickerOpen := True,
       console := console w @ [LogError ''getUserMedia failed:'' (Some err)]\<rparr>"

text \<open>
  \<open>capture\<close>. The frame to draw is given by the intrinsic size of the video element,
  whether the canvas yields a 2d context, and what the browser encodes from the canvas
  once the frame is drawn into it, as a function of the size of the canvas: the data URL
  of \<open>canvas.toDataURL('image/jpeg', 0.92)\<close>, and for the older copy of the component the
  blob of \<open>canvas.toBlob\<close> (none when encoding fails) and the object URL made for a blob.
  The canvas element is always mounted.
\<close>

record frame =
  videoWidth :: nat
  videoHeight :: nat
  contextAvailable :: bool
  toDataURL :: "int \<times> int \<Rightarrow> string"
  toBlob :: "int \<times> int \<Rightarrow> string option"
  createObjectURL :: "string \<Rightarrow> string"

definition firstVideoTrack :: "camera \<Rightarrow> MediaStreamTrack option" where
  "firstVideoTrack w =
     (case stream (ui w) of
        None \<Rightarrow> None
      | Some i \<Rightarrow> if i < length (streams w) then element (streams w ! i) 0 else None)"

definition capture :: "frame \<Rightarrow> camera \<Rightarrow> camera" where
  "capture f w =
     (if \<not> videoMounted (ui w) then w
      else
        let track = firstVideoTrack w;
            outSize = captureSize (map_option settings track) (videoWidth f) (videoHeight f);
            w1 = w\<lparr>canvas := outSize\<rparr>
        in if \<not> contextAvailable f then w1
           else
             let w2 = w1\<lparr>ui := (ui w1)\<lparr>frozenFrame := Some (toDataURL f outSize)\<rparr>\<rparr>;
                 w3 = stopCamera (stream (ui w)) w2
             in w3\<lparr>ui := (ui w3)\<lparr>showToast := True\<rparr>\<rparr>)"

text \<open>
  \<open>capture\<close> of the older copy of the component: its track is always undefined, and it
  encodes with \<open>canvas.toBlob\<close>, in whose callback the blob and its object URL are put
  into the state and the camera is stopped; without a blob nothing more happens. The
  callback is run here with the state the click found.
\<close>

definition captureOld :: "frame \<Rightarrow> camera \<Rightarrow> camera" where
  "captureOld f w =
     (if \<not> videoMounted (ui w) then w
      else
        let outSize = captureSizeOld (videoWidth f) (videoHeight f);
            w1 = w\<lparr>canvas := outSize\<rparr>
        in if \<not> contextAvailable f then w1
           else
             (case toBlob f outSize of
                None \<Rightarrow> w1
              | Some b \<Rightarrow>
                  let w2 = w1\<lparr>ui := (ui w1)\<lparr>blob := Some b,
                                           frozenFrame := Some (createObjectURL f b)\<rparr>\<rparr>;
                      w3 = stopCamera (stream (ui w)) w2
                  in w3\<lparr>ui := (ui w3)\<lparr>showToast := True\<rparr>\<rparr>))"

text \<open>
  The width and the height \<open>capture\<close> reads for the frame (\<open>w\<close> and \<open>h\<close> in the source),
  in the component and in its older copy.
\<close>

definition sourceWidth :: "frame \<Rightarrow> camera \<Rightarrow> nat" where
  "sourceWidth f w = frameWidth (map_option settings (firstVideoTrack w)) (videoWidth f)"

definition sourceHeight :: "frame \<Rightarrow> camera \<Rightarrow> nat" where
  "sourceHeight f w = frameHeight (map_option settings (firstVideoTrack w)) (videoHeight f)"

definition sourceWidthOld :: "frame \<Rightarrow> nat" where
  "sourceWidthOld f = frameWidth None (videoWidth f)"

definition sourceHeightOld :: "frame \<Rightarrow> nat" where
  "sourceHeightOld f = frameHeight None (videoHeight f)"

text \<open>
  The two handlers for a chosen file. \<open>onFileChange\<close> is the one the file input is wired
  to (\<open>onChange={onFileChange}\<close>); \<open>handleFileUpload\<close> is defined in the component and
  used nowhere. Each starts a \<open>FileReader\<close> and goes on in its \<open>onload\<close>.
\<close>

definition onFileChange :: "string \<Rightarrow> camera \<Rightarrow> camera" where
  "onFileChange file w =
     w\<lparr>ui := (ui w)\<lparr>blob := Some file\<rparr>, pendingReads := pendingReads w @ [file]\<rparr>"

definition onFileChangeLoaded :: "string \<Rightarrow> camera \<Rightarrow> camera" where
  "onFileChangeLoaded dataUrl w =
     w\<lparr>ui := (ui w)\<lparr>frozenFrame := Some dataUrl, showToast := True\<rparr>\<rparr>"

definition handleFileUploadLoaded :: "nat option \<Rightarrow> string \<Rightarrow> camera \<Rightarrow> camera" where
  "handleFileUploadLoaded closedOver dataUrl w =
     (let w1 = w\<lparr>ui := (ui w)\<lparr>uploadedImage := Some dataUrl, frozenFrame := Some dataUrl\<rparr>\<rparr>;
          w2 = stopCamera closedOver w1
      in w2\<lparr>ui := (ui w2)\<lparr>showToast := True\<rparr>\<rparr>)"

text \<open>\<open>handleNext\<close> on the component state and the storage, and \<open>handleRetry\<close>.\<close>

definition handleNext :: "capture_state \<Rightarrow> storage \<Rightarrow> capture_state result" where
  "handleNext c sto =
     (case frozenFrame c of
        None \<Rightarrow> \<lparr>page = c, session = sto, navigated = [], logged = []\<rparr>
      | Some photo \<Rightarrow>
          if photo = [] then \<lparr>page = c, session = sto, navigated = [], logged = []\<rparr>
          else
            (case setItem sto ''capturedPhoto'' photo of
               Inl e \<Rightarrow>
                 \<lparr>page = c\<lparr>cameraError := Some ''Failed to save the photo. Please try again.''\<rparr>,
                  session = sto, navigated = [],
                  logged = [LogError ''Error storing photo in sessionStorage:'' (Some e)]\<rparr>
             | Inr sto' \<Rightarrow>
                 \<lparr>page = c, session = sto', navigated = [Push (Route ''/preview'' None)],
                  logged = []\<rparr>))"

definition handleRetry :: "camera \<Rightarrow> camera" where
  "handleRetry w = startCamera (w\<lparr>ui := (ui w)\<lparr>blob := None, frozenFrame := None\<rparr>\<rparr>)"

text \<open>
  The events of the component, each with the condition under which it can happen (the
  button is rendered and enabled, the call or the read is pending), and the step it
  makes. An event that cannot happen leaves everything as it is.
\<close>

datatype event =
  ClickTakePhoto
  | ClickUploadImage
  | CameraGranted MediaStream
  | CameraDenied js_error
  | PlaySettled
  | FilePicked string
  | PickerDismissed
  | FileLoaded
  | ClickCapture frame
  | ClickRetry
  | ClickNext
  | ToastTimeout

fun step :: "camera \<Rightarrow> event \<Rightarrow> camera" where
  "step w ClickTakePhoto =
     (if overlayShown (ui w) \<and> \<not> busy (ui w) then startCamera w else w)"
| "step w ClickUploadImage =
     (if overlayShown (ui w) then w\<lparr>pickerOpen := True\<rparr> else w)"
| "step w (CameraGranted s) =
     (if pendingCameraRequests w > 0 \<and> (\<forall>t \<in> set s. readyState t = Live)
      then startCameraGranted s w else w)"
| "step w (CameraDenied err) =
     (if pendingCameraRequests w > 0 then startCameraDenied err w else w)"
| "step w PlaySettled =
     (if pendingPlays w > 0 then startCameraFinish (w\<lparr>pendingPlays := pendingPlays w - 1\<rparr>) else w)"
| "step w (FilePicked file) =
     (if pickerOpen w then onFileChange file (w\<lparr>pickerOpen := False\<rparr>) else w)"
| "step w PickerDismissed = w\<lparr>pickerOpen := False\<rparr>"
| "step w FileLoaded =
     (case pendingReads w of
        [] \<Rightarrow> w
      | dataUrl # rest \<Rightarrow> onFileChangeLoaded dataUrl (w\<lparr>pendingReads := rest\<rparr>))"
| "step w (ClickCapture f) =
     (if captureEnabled (ui w) then capture f w else w)"
| "step w ClickRetry =
     (if retryShown (ui w) then handleRetry w else w)"
| "step w ClickNext =
     (if retryShown (ui w) then
        let r = handleNext (ui w) (sessionStorage w)
        in w\<lparr>ui := page r, sessionStorage := session r,
             router := router w @ navigated r, console := console w @ logged r\<rparr>
      else w)"
| "step w ToastTimeout = w\<lparr>ui := (ui w)\<lparr>showToast := False\<rparr>\<rparr>"

definition run :: "camera \<Rightarrow> event list \<Rightarrow> camera" where
  "run w events = foldl step w events"

text \<open>A camera is live while a track of a stream handed out is; a frame is frozen while
  \<open>frozenFrame\<close> holds a data URL.\<close>

definition cameraLive :: "camera \<Rightarrow> bool" where
  "cameraLive w = (\<exists>s \<in> set (streams w). \<exists>t \<in> set s. readyState t = Live)"

definition frozen :: "camera \<Rightarrow> bool" where
  "frozen w = truthy (frozenFrame (ui w))"

section \<open>The category selector (preview page)\<close>

text \<open>
  A category with its \<open>id\<close>, \<open>name\<close> and \<open>description\<close> (the fields \<open>cat_id\<close>, \<open>cat_name\<close>
  and \<open>description\<close>); the \<open>icon\<close>, an emoji, is left out.
\<close>

record DesignCategory =
  cat_id :: string
  cat_name :: string
  description :: string

definition designCategories :: "DesignCategory list" where
  "designCategories =
     [\<lparr>cat_id = ''floor'', cat_name = ''Floor'',
        description = ''Change your floor design and materials''\<rparr>,
      \<lparr>cat_id = ''walls'', cat_name = ''Walls'',
        description = ''Transform your wall appearance''\<rparr>,
      \<lparr>cat_id = ''furniture'', cat_name = ''Furniture'',
        description = ''Add or replace furniture''\<rparr>,
      \<lparr>cat_id = ''lighting'', cat_name = ''Lighting'',
        description = ''Modify lighting and fixtures''\<rparr>,
      \<lparr>cat_id = ''decor'', cat_name = ''Decor'',
        description = ''Add decorative elements''\<rparr>]"

text \<open>
  The component state of \<open>PreviewPage\<close>. The \<open>Set<string>\<close> of selected categories is the
  list of its elements in insertion order, which is the order \<open>Array.from\<close> reads them in.
\<close>

record preview_state =
  imageUrl :: "string option"
  selectedCategories :: "string list"
  isMounted :: bool

definition previewInitial :: preview_state where
  "previewInitial = \<lparr>imageUrl = None, selectedCategories = [], isMounted = False\<rparr>"

text \<open>
  The effect that takes the captured photo out of the session storage:
  \<open>photo = getItem('capturedPhoto'); if (photo) { setImageUrl(photo); removeItem('capturedPhoto') }
  else router.replace('/')\<close>, with \<open>catch { console.error(...); router.replace('/') }\<close>.
\<close>

definition loadCapturedPhoto :: "preview_state \<Rightarrow> storage \<Rightarrow> preview_state result" where
  "loadCapturedPhoto st sto =
     (if isMounted st then
        (case getItem sto ''capturedPhoto'' of
           Inl e \<Rightarrow>
             \<lparr>page = st, session = sto, navigated = [Replace entryPoint],
              logged = [LogError ''Error accessing sessionStorage:'' (Some e)]\<rparr>
         | Inr photo \<Rightarrow>
             if truthy photo then
               (case removeItem sto ''capturedPhoto'' of
                  Inl e \<Rightarrow>
                    \<lparr>page = st\<lparr>imageUrl := photo\<rparr>, session = sto,
                     navigated = [Replace entryPoint],
                     logged = [LogError ''Error accessing sessionStorage:'' (Some e)]\<rparr>
                | Inr sto' \<Rightarrow>
                    \<lparr>page = st\<lparr>imageUrl := photo\<rparr>, session = sto',
                     navigated = [], logged = []\<rparr>)
             else \<lparr>page = st, session = sto, navigated = [Replace entryPoint], logged = []\<rparr>)
      else \<lparr>page = st, session = sto, navigated = [], logged = []\<rparr>)"

text \<open>
  \<open>const newSet = new Set(prev); if (newSet.has(id)) newSet.delete(id); else newSet.add(id)\<close>:
  \<open>add\<close> puts a new element last.
\<close>

definition toggle :: "string \<Rightarrow> string list \<Rightarrow> string list" where
  "toggle categoryId prev =
     (if categoryId \<in> set prev then removeAll categoryId prev else prev @ [categoryId])"

definition toggleCategory :: "string \<Rightarrow> preview_state \<Rightarrow> preview_state" where
  "toggleCategory categoryId st =
     st\<lparr>selectedCategories := toggle categoryId (selectedCategories st)\<rparr>"

text \<open>
  The body of the \<open>try\<close> block of \<open>handleGenerateDesign\<close>: the checks on the image, then
  the write to the session storage and the route to push. \<open>atob\<close> is the browser's
  base64 decoder: \<open>None\<close> where it throws.
\<close>

definition prepareImage ::
  "(string \<Rightarrow> string option) \<Rightarrow> string \<Rightarrow> string list \<Rightarrow> storage \<Rightarrow> js_error + (storage \<times> route)" where
  "prepareImage atob url selected sto =
     (if \<not> startsWith ''data:image/'' url then Inl (Error ''Invalid image format'')
      else
        let categoriesParam = join '','' selected in
        (case split CHR '','' url of
           [] \<Rightarrow> Inl (Error ''TypeError'')
         | header # rest \<Rightarrow>
             let base64Data = element rest 0 in
             if \<not> includes_str '';base64'' header \<or> \<not> truthy base64Data
             then Inl (Error ''Invalid image data format'')
             else
               (case base64Data of
                  None \<Rightarrow> Inl (Error ''Invalid image data format'')
                | Some b \<Rightarrow>
                    (case atob b of
                       None \<Rightarrow> Inl (Error ''Invalid base64 image data'')
                     | Some decoded \<Rightarrow>
                         (case setItem sto ''designPhoto'' url of
                            Inl e \<Rightarrow> Inl e
                          | Inr sto' \<Rightarrow> Inr (sto', Route ''/compare'' (Some categoriesParam)))))))"

definition handleGenerateDesign ::
  "(string \<Rightarrow> string option) \<Rightarrow> preview_state \<Rightarrow> storage \<Rightarrow> preview_state result" where
  "handleGenerateDesign atob st sto =
     (case imageUrl st of
        None \<Rightarrow>
          \<lparr>page = st, session = sto, navigated = [],
           logged = [LogError ''No image URL available'' None]\<rparr>
      | Some url \<Rightarrow>
          if url = [] then
            \<lparr>page = st, session = sto, navigated = [],
             logged = [LogError ''No image URL available'' None]\<rparr>
          else
            (case prepareImage atob url (selectedCategories st) sto of
               Inl e \<Rightarrow>
                 \<lparr>page = st, session = sto, navigated = [],
                  logged = [LogError ''Error preparing image:'' (Some e)]\<rparr>
             | Inr (sto', target) \<Rightarrow>
                 \<lparr>page = st, session = sto', navigated = [Push target], logged = []\<rparr>))"

text \<open>
  What the page renders: the category buttons are inside the branch \<open>imageUrl ? ... : ...\<close>,
  and the generate button inside \<open>selectedCategories.size > 0 && ...\<close> within it.
\<close>

definition categoriesShown :: "preview_state \<Rightarrow> bool" where
  "categoriesShown st = truthy (imageUrl st)"

definition generateShown :: "preview_state \<Rightarrow> bool" where
  "generateShown st = (truthy (imageUrl st) \<and> length (selectedCategories st) > 0)"

text \<open>
  The states the page can be in: it starts in \<open>previewInitial\<close>, is mounted, runs the
  storage effect against whatever the storage holds, and toggles a category when one of
  the rendered category buttons is clicked.
\<close>

inductive previewReachable :: "preview_state \<Rightarrow> bool" where
  start: "previewReachable previewInitial"
| mount: "previewReachable st \<Longrightarrow> previewReachable (st\<lparr>isMounted := True\<rparr>)"
| effect: "previewReachable st \<Longrightarrow> previewReachable (page (loadCapturedPhoto st sto))"
| click: "previewReachable st \<Longrightarrow> categoriesShown st \<Longrightarrow> c \<in> set (map cat_id designCategories)
          \<Longrightarrow> previewReachable (toggleCategory c st)"

text \<open>
  The three checks as the specification words them, for a payload in the data scheme
  (a header, the first comma, and the data, which is all the text after that comma): the
  payload starts with the image data-scheme prefix, its header carries the base64
  marker, and its data decodes as base64. A payload without a comma has no data.
\<close>

definition headerOf :: "string \<Rightarrow> string" where
  "headerOf payload = takeWhile (\<lambda>c. c \<noteq> CHR '','') payload"

definition dataOf :: "string \<Rightarrow> string option" where
  "dataOf payload =
     (case dropWhile (\<lambda>c. c \<noteq> CHR '','') payload of
        [] \<Rightarrow> None
      | comma # rest \<Rightarrow> Some rest)"

definition passesImageChecks :: "(string \<Rightarrow> string option) \<Rightarrow> string \<Rightarrow> bool" where
  "passesImageChecks atob payload =
     (startsWith ''data:image/'' payload
      \<and> includes_str '';base64'' (headerOf payload)
      \<and> (case dataOf payload of None \<Rightarrow> False | Some d \<Rightarrow> atob d \<noteq> None))"

section \<open>The design generation client\<close>

text \<open>
  A \<open>File\<close> is a name, a MIME type and its bytes; a \<open>Blob\<close> is a MIME type and its bytes.
  The console output of the client is not modelled.
\<close>

record File =
  file_name :: string
  file_type :: string
  file_bytes :: string

record Blob =
  blob_type :: string
  blob_bytes :: string

definition API_BASE_URL :: string where
  "API_BASE_URL = ''http://localhost:8000''"

text \<open>
  The first match of the regular expression \<open>/:(.*?);/\<close> and its group: from a colon, the
  shortest run of characters other than line terminators that a semicolon follows; where
  a colon has no such run the search goes on behind it.
\<close>

definition lineTerminator :: "char \<Rightarrow> bool" where
  "lineTerminator c = (c = CHR 0x0A \<or> c = CHR 0x0D)"

fun untilSemicolon :: "string \<Rightarrow> string option" where
  "untilSemicolon [] = None"
| "untilSemicolon (c # cs) =
     (if c = CHR '';'' then Some []
      else if lineTerminator c then None
      else (case untilSemicolon cs of None \<Rightarrow> None | Some m \<Rightarrow> Some (c # m)))"

fun mimeMatch :: "string \<Rightarrow> string option" where
  "mimeMatch [] = None"
| "mimeMatch (c # cs) =
     (if c = CHR '':'' then (case untilSemicolon cs of Some m \<Rightarrow> Some m | None \<Rightarrow> mimeMatch cs)
      else mimeMatch cs)"

text \<open>
  \<open>dataURLtoFile\<close>: every \<open>throw\<close> is an \<open>Inl\<close>. The bytes of the file are the character
  codes of the decoded text.
\<close>

definition dataURLtoFile ::
  "(string \<Rightarrow> string option) \<Rightarrow> string \<Rightarrow> string \<Rightarrow> js_error + File" where
  "dataURLtoFile atob dataUrl filename =
     (if \<not> startsWith ''data:'' dataUrl then Inl (Error ''Invalid data URL format'')
      else
        (case split CHR '','' dataUrl of
           [] \<Rightarrow> Inl (Error ''Invalid data URL format: missing header or data'')
         | header # rest \<Rightarrow>
             (case element rest 0 of
                None \<Rightarrow> Inl (Error ''Invalid data URL format: missing header or data'')
              | Some base64Data \<Rightarrow>
                  if header = [] \<or> base64Data = []
                  then Inl (Error ''Invalid data URL format: missing header or data'')
                  else
                    let mime = (case mimeMatch header of
                                  None \<Rightarrow> ''image/jpeg''
                                | Some m \<Rightarrow> if m = [] then ''image/jpeg'' else m)
                    in if \<not> includes_str '';base64'' header
                       then Inl (Error ''Data URL is not base64 encoded'')
                       else
                         (case atob base64Data of
                            None \<Rightarrow> Inl (Error ''Failed to decode image data'')
                          | Some bstr \<Rightarrow>
                              Inr \<lparr>file_name = filename, file_type = mime, file_bytes = bstr\<rparr>))))"

text \<open>
  \<open>blobToDataURL\<close>: the \<open>FileReader\<close> of the browser either loads the data URL of the blob
  or fails, and the promise then rejects with the reader's event, which is no \<open>Error\<close>.
\<close>

definition blobToDataURL :: "(Blob \<Rightarrow> string option) \<Rightarrow> Blob \<Rightarrow> js_error + string" where
  "blobToDataURL readAsDataURL payload =
     (case readAsDataURL payload of None \<Rightarrow> Inl NotAnError | Some dataUrl \<Rightarrow> Inr dataUrl)"

text \<open>
  A request is a URL, a method and the files appended to the multipart field \<open>files\<close>.
  What comes back from \<open>fetch\<close> is a rejection (no response at all) or a response with a
  status, a content type and a body; reading the body (\<open>text()\<close>, \<open>blob()\<close>) can fail too.
\<close>

record Request =
  request_url :: string
  request_method :: string
  request_files :: "File list"

record Response =
  status :: nat
  contentType :: string
  body :: "js_error + string"

datatype fetched = Rejected js_error | Resolved Response

definition ok :: "Response \<Rightarrow> bool" where
  "ok r = (200 \<le> status r \<and> status r \<le> 299)"

text \<open>
  \<open>generateDesigns\<close> up to the call of \<open>fetch\<close>: the form data and the endpoint. The tile
  is used \<open>if (tileImage)\<close>, that is when it is given and not the empty string.
\<close>

definition buildRequest ::
  "(string \<Rightarrow> string option) \<Rightarrow> string \<Rightarrow> string option \<Rightarrow> js_error + Request" where
  "buildRequest atob originalImage tileImage =
     (case dataURLtoFile atob originalImage ''original.jpg'' of
        Inl e \<Rightarrow> Inl e
      | Inr originalFile \<Rightarrow>
          (case tileImage of
             None \<Rightarrow>
               Inr \<lparr>request_url = API_BASE_URL @ ''/tiles/'' @ ''generate-random'' @ ''/'',
                    request_method = ''POST'', request_files = [originalFile]\<rparr>
           | Some tile \<Rightarrow>
               if tile = [] then
                 Inr \<lparr>request_url = API_BASE_URL @ ''/tiles/'' @ ''generate-random'' @ ''/'',
                      request_method = ''POST'', request_files = [originalFile]\<rparr>
               else
                 (case dataURLtoFile atob tile ''tile.jpg'' of
                    Inl e \<Rightarrow> Inl e
                  | Inr tileFile \<Rightarrow>
                      Inr \<lparr>request_url = API_BASE_URL @ ''/tiles/'' @ ''generate'' @ ''/'',
                           request_method = ''POST'', request_files = [originalFile, tileFile]\<rparr>)))"

text \<open>\<open>generateDesigns\<close> from the answer of \<open>fetch\<close> on.\<close>

definition readResponse :: "fetched \<Rightarrow> js_error + Blob" where
  "readResponse answer =
     (case answer of
        Rejected e \<Rightarrow> Inl e
      | Resolved response \<Rightarrow>
          if \<not> ok response then
            (case body response of
               Inl e \<Rightarrow> Inl e
             | Inr errorText \<Rightarrow>
                 Inl (Error (''Failed to generate design: '' @ toString (status response)
                             @ '' '' @ errorText)))
          else
            (case body response of
               Inl e \<Rightarrow> Inl e
             | Inr bytes \<Rightarrow> Inr \<lparr>blob_type = contentType response, blob_bytes = bytes\<rparr>))"

text \<open>
  \<open>generateDesigns\<close>: the requests it sends (none when the form data cannot be built, one
  otherwise) and what its promise settles with, given the answer to the request.
\<close>

definition generateDesigns ::
  "(string \<Rightarrow> string option) \<Rightarrow> string \<Rightarrow> string option \<Rightarrow> fetched \<Rightarrow> Request list \<times> (js_error + Blob)" where
  "generateDesigns atob originalImage tileImage answer =
     (case buildRequest atob originalImage tileImage of
        Inl e \<Rightarrow> ([], Inl e)
      | Inr request \<Rightarrow> ([request], readResponse answer))"

section \<open>The comparison screen\<close>

text \<open>
  A generated design with its \<open>id\<close> and \<open>imageUrl\<close> (the fields \<open>design_id\<close> and
  \<open>design_imageUrl\<close>), and the state of \<open>ComparePage\<close>, whose \<open>selectedCategories\<close>,
  \<open>error\<close> and \<open>isMounted\<close> are the fields \<open>chosenCategories\<close>, \<open>errorMessage\<close> and
  \<open>mounted\<close>.
\<close>

record GeneratedDesign =
  design_id :: string
  design_imageUrl :: string

record compare_state =
  originalPhoto :: "string option"
  isLoading :: bool
  loadingDesignIndex :: "nat option"
  designs :: "(GeneratedDesign \<times> GeneratedDesign) option"
  chosenCategories :: "string list"
  errorMessage :: "string option"
  mounted :: bool

definition compareInitial :: compare_state where
  "compareInitial =
     \<lparr>originalPhoto = None, isLoading = False, loadingDesignIndex = None, designs = None,
      chosenCategories = [], errorMessage = None, mounted = False\<rparr>"

text \<open>
  The effect that takes the photo out of the session storage. \<open>categories\<close> is
  \<open>searchParams.get('categories')\<close>. Inside the \<open>try\<close> the photo is read, checked, put
  into the state, and only then removed from the storage; every \<open>throw\<close> ends in the
  \<open>catch\<close>, which logs, sets the error and replaces the route by the entry point.
\<close>

definition photoFailed :: "compare_state \<Rightarrow> storage \<Rightarrow> js_error \<Rightarrow> compare_state result" where
  "photoFailed st sto e =
     \<lparr>page = st\<lparr>errorMessage := Some ''Failed to process photo data''\<rparr>, session = sto,
      navigated = [Replace entryPoint],
      logged = [LogError ''Error processing photo data:'' (Some e)]\<rparr>"

definition loadDesignPhoto ::
  "compare_state \<Rightarrow> string option \<Rightarrow> storage \<Rightarrow> compare_state result" where
  "loadDesignPhoto st categories sto =
     (if \<not> mounted st then \<lparr>page = st, session = sto, navigated = [], logged = []\<rparr>
      else
        (case categories of
           None \<Rightarrow> \<lparr>page = st, session = sto, navigated = [Replace entryPoint], logged = []\<rparr>
         | Some cats \<Rightarrow>
             if cats = [] then
               \<lparr>page = st, session = sto, navigated = [Replace entryPoint], logged = []\<rparr>
             else
               (case getItem sto ''designPhoto'' of
                  Inl e \<Rightarrow> photoFailed st sto e
                | Inr None \<Rightarrow> photoFailed st sto (Error ''No photo found'')
                | Inr (Some photo) \<Rightarrow>
                    if photo = [] then photoFailed st sto (Error ''No photo found'')
                    else if \<not> startsWith ''data:image/'' photo
                    then photoFailed st sto (Error ''Invalid image format'')
                    else
                      let st' = st\<lparr>originalPhoto := Some photo,
                                    chosenCategories := split CHR '','' cats\<rparr>
                      in (case removeItem sto ''designPhoto'' of
                            Inl e \<Rightarrow> photoFailed st' sto e
                          | Inr sto' \<Rightarrow>
                              \<lparr>page = st', session = sto', navigated = [], logged = []\<rparr>))))"

text \<open>
  \<open>Promise.all\<close> of two promises: both values in the order of the promises, or the
  rejection that comes first in time.
\<close>

datatype settling = FirstSettlesFirst | SecondSettlesFirst

definition promiseAll ::
  "settling \<Rightarrow> js_error + 'a \<Rightarrow> js_error + 'b \<Rightarrow> js_error + ('a \<times> 'b)" where
  "promiseAll order p q =
     (case (p, q) of
        (Inr a, Inr b) \<Rightarrow> Inr (a, b)
      | (Inl e, Inr b) \<Rightarrow> Inl e
      | (Inr a, Inl e) \<Rightarrow> Inl e
      | (Inl e1, Inl e2) \<Rightarrow> Inl (case order of FirstSettlesFirst \<Rightarrow> e1 | SecondSettlesFirst \<Rightarrow> e2))"

text \<open>
  What the browser and the service contribute to a generation: the decoder \<open>atob\<close>, the
  file reader behind \<open>blobToDataURL\<close>, the answers to the first and to the second request, which of the two requests
  settles first and which of the two conversions, and the clock reading \<open>Date.now()\<close>
  at the moment a regenerated design is put into the state.
\<close>

record environment =
  decoder :: "string \<Rightarrow> string option"
  reader :: "Blob \<Rightarrow> string option"
  firstAnswer :: fetched
  secondAnswer :: fetched
  requestOrder :: settling
  conversionOrder :: settling
  clock :: nat

text \<open>What a handler of the comparison screen leaves behind.\<close>

record generation =
  after :: compare_state
  requests :: "Request list"
  errors :: "log_entry list"

text \<open>\<open>error instanceof Error ? error.message : 'Failed to generate designs'\<close>.\<close>

definition messageOf :: "js_error \<Rightarrow> string" where
  "messageOf e = (case e of Error m \<Rightarrow> m | NotAnError \<Rightarrow> ''Failed to generate designs'')"

text \<open>
  \<open>generateInitialDesigns\<close>. While the requests are out the state is \<open>generating st\<close>.
  Both calls of \<open>generateDesigns\<close> are made before either is awaited. The \<open>catch\<close> sets
  the error, \<open>finally\<close> clears \<open>isLoading\<close>.
\<close>

definition generating :: "compare_state \<Rightarrow> compare_state" where
  "generating st = st\<lparr>isLoading := True, errorMessage := None\<rparr>"

definition generationFailed :: "compare_state \<Rightarrow> Request list \<Rightarrow> js_error \<Rightarrow> generation" where
  "generationFailed st sent e =
     \<lparr>after = (generating st)\<lparr>errorMessage := Some (messageOf e), isLoading := False\<rparr>,
      requests = sent,
      errors = [LogError ''Failed to generate designs:'' (Some e)]\<rparr>"

definition generateInitialDesigns :: "environment \<Rightarrow> compare_state \<Rightarrow> generation" where
  "generateInitialDesigns env st =
     (case originalPhoto st of
        None \<Rightarrow>
          \<lparr>after = st\<lparr>errorMessage := Some ''No original photo provided''\<rparr>,
           requests = [], errors = []\<rparr>
      | Some photo \<Rightarrow>
          if photo = [] then
            \<lparr>after = st\<lparr>errorMessage := Some ''No original photo provided''\<rparr>,
             requests = [], errors = []\<rparr>
          else
            let (sent1, design1) = generateDesigns (decoder env) photo None (firstAnswer env);
                (sent2, design2) = generateDesigns (decoder env) photo None (secondAnswer env);
                sent = sent1 @ sent2
            in (case promiseAll (requestOrder env) design1 design2 of
                  Inl e \<Rightarrow> generationFailed st sent e
                | Inr (design1Blob, design2Blob) \<Rightarrow>
                    (case promiseAll (conversionOrder env)
                            (blobToDataURL (reader env) design1Blob)
                            (blobToDataURL (reader env) design2Blob) of
                       Inl e \<Rightarrow> generationFailed st sent e
                     | Inr (design1Url, design2Url) \<Rightarrow>
                         \<lparr>after = (generating st)
                            \<lparr>designs := Some (\<lparr>design_id = ''1'', design_imageUrl = design1Url\<rparr>,
                                              \<lparr>design_id = ''2'', design_imageUrl = design2Url\<rparr>),
                             isLoading := False\<rparr>,
                          requests = sent, errors = []\<rparr>)))"

text \<open>
  \<open>handleDesignChoice\<close>: only \<open>chosenIndex\<close> of its three parameters is used. While the
  request is out the state is \<open>regenerating\<close>. The new design gets
  \<open>Date.now().toString()\<close> as its identifier.
\<close>

definition otherIndexOf :: "nat \<Rightarrow> nat" where
  "otherIndexOf chosenIndex = (if chosenIndex = 0 then 1 else 0)"

definition regenerating :: "nat \<Rightarrow> compare_state \<Rightarrow> compare_state" where
  "regenerating chosenIndex st = st\<lparr>loadingDesignIndex := Some (otherIndexOf chosenIndex)\<rparr>"

definition replaceSlot ::
  "nat \<Rightarrow> GeneratedDesign \<Rightarrow> (GeneratedDesign \<times> GeneratedDesign) option
   \<Rightarrow> (GeneratedDesign \<times> GeneratedDesign) option" where
  "replaceSlot otherIndex new prevDesigns =
     (case prevDesigns of
        None \<Rightarrow> None
      | Some (d0, d1) \<Rightarrow> Some (if otherIndex = 0 then (new, d1) else (d0, new)))"

definition regenerationFailed :: "nat \<Rightarrow> compare_state \<Rightarrow> Request list \<Rightarrow> js_error \<Rightarrow> generation" where
  "regenerationFailed chosenIndex st sent e =
     \<lparr>after = (regenerating chosenIndex st)
        \<lparr>errorMessage := Some ''Failed to generate new design. Please try again.'',
         loadingDesignIndex := None\<rparr>,
      requests = sent,
      errors = [LogError ''Failed to generate new design:'' (Some e)]\<rparr>"

definition handleDesignChoice :: "environment \<Rightarrow> nat \<Rightarrow> compare_state \<Rightarrow> generation" where
  "handleDesignChoice env chosenIndex st =
     (case originalPhoto st of
        None \<Rightarrow> \<lparr>after = st, requests = [], errors = []\<rparr>
      | Some photo \<Rightarrow>
          if photo = [] then \<lparr>after = st, requests = [], errors = []\<rparr>
          else
            let (sent, newDesign) = generateDesigns (decoder env) photo None (firstAnswer env) in
            (case newDesign of
               Inl e \<Rightarrow> regenerationFailed chosenIndex st sent e
             | Inr newDesignBlob \<Rightarrow>
                 (case blobToDataURL (reader env) newDesignBlob of
                    Inl e \<Rightarrow> regenerationFailed chosenIndex st sent e
                  | Inr newDesignUrl \<Rightarrow>
                      \<lparr>after = (regenerating chosenIndex st)
                         \<lparr>designs :=
                            replaceSlot (otherIndexOf chosenIndex)
                              \<lparr>design_id = toString (clock env), design_imageUrl = newDesignUrl\<rparr>
                              (designs st),
                          loadingDesignIndex := None\<rparr>,
                       requests = sent, errors = []\<rparr>)))"

text \<open>
  What the comparison screen renders:
  \<open>isLoading ? spinner : designs ? the two slots : error ? message and Retry : 'Loading...'\<close>.
  A slot is a spinner while it is the one being regenerated, and a button otherwise.
  The Retry button runs \<open>setError(null); generateInitialDesigns()\<close>.
\<close>

datatype slot_view = SlotRegenerating | SlotButton GeneratedDesign

datatype compare_view =
  GeneratingView
  | DesignsView slot_view slot_view
  | RetryView string
  | LoadingView

definition slotView :: "compare_state \<Rightarrow> nat \<Rightarrow> GeneratedDesign \<Rightarrow> slot_view" where
  "slotView st index design =
     (if loadingDesignIndex st = Some index then SlotRegenerating else SlotButton design)"

definition render :: "compare_state \<Rightarrow> compare_view" where
  "render st =
     (if isLoading st then GeneratingView
      else
        (case designs st of
           Some (d0, d1) \<Rightarrow> DesignsView (slotView st 0 d0) (slotView st 1 d1)
         | None \<Rightarrow>
             (case errorMessage st of
                None \<Rightarrow> LoadingView
              | Some message \<Rightarrow> if message = [] then LoadingView else RetryView message)))"

definition retry :: "environment \<Rightarrow> compare_state \<Rightarrow> generation" where
  "retry env st = generateInitialDesigns env (st\<lparr>errorMessage := None\<rparr>)"

text \<open>The request \<open>generateDesigns\<close> sends for a source file and no tile.\<close>

definition randomRequest :: "File \<Rightarrow> Request" where
  "randomRequest originalFile =
     \<lparr>request_url = ''http://localhost:8000/tiles/generate-random/'',
      request_method = ''POST'', request_files = [originalFile]\<rparr>"

section \<open>Concrete inputs\<close>

text \<open>A decoder that accepts one base64 text, and a preview page holding a given image.\<close>

definition atobExample :: "string \<Rightarrow> string option" where
  "atobExample b = (if b = ''AAAA'' then Some ''abc'' else None)"

definition previewExample :: "string \<Rightarrow> preview_state" where
  "previewExample url = \<lparr>imageUrl = Some url, selectedCategories = [''floor''], isMounted = True\<rparr>"

text \<open>A stream of one live video track of 1920 by 1080, and a picked image file.\<close>

definition rearCamera :: MediaStream where
  "rearCamera = [\<lparr>readyState = Live, settings = \<lparr>width = Some 1920, height = Some 1080\<rparr>\<rparr>]"

text \<open>
  A stream of one live video track of 3000 by 2000, the component streaming it (after a
  click on "Take a Photo", the grant and the start of the video), and two frames to
  capture: one whose video element reports no size, one whose video element reports
  3000 by 2000.
\<close>

definition wideCamera :: MediaStream where
  "wideCamera = [\<lparr>readyState = Live, settings = \<lparr>width = Some 3000, height = Some 2000\<rparr>\<rparr>]"

definition streamingExample :: camera where
  "streamingExample =
     run (cameraInitial True True (Available Map.empty))
       [ClickTakePhoto, CameraGranted wideCamera, PlaySettled]"

definition frameExample :: frame where
  "frameExample =
     \<lparr>videoWidth = 0, videoHeight = 0, contextAvailable = True,
      toDataURL = (\<lambda>size. ''data:image/jpeg;base64,AAAA''),
      toBlob = (\<lambda>size. Some ''jpeg''),
      createObjectURL = (\<lambda>b. ''blob:1'')\<rparr>"

definition wideFrameExample :: frame where
  "wideFrameExample = frameExample\<lparr>videoWidth := 3000, videoHeight := 2000\<rparr>"

definition pickedFile :: string where
  "pickedFile = ''data:image/png;base64,AAAA''"

text \<open>A capture component holding a frozen frame, and the two next screens just mounted.\<close>

definition frozenExample :: capture_state where
  "frozenExample =
     \<lparr>stream = None, blob = None, busy = False, cameraError = None,
      frozenFrame = Some pickedFile, showToast = False, uploadedImage = None\<rparr>"

definition previewMounted :: preview_state where
  "previewMounted = previewInitial\<lparr>isMounted := True\<rparr>"

definition compareMounted :: compare_state where
  "compareMounted = compareInitial\<lparr>mounted := True\<rparr>"

text \<open>
  A file reader that writes the bytes of a blob behind its header without encoding
  them, a service that answers every request with status 500 and the text
  \<open>model unavailable\<close>, a service that answers with two images, and a comparison screen
  that holds the picked file as its photo.
\<close>

definition readerExample :: "Blob \<Rightarrow> string option" where
  "readerExample b = Some (''data:'' @ blob_type b @ '';base64,'' @ blob_bytes b)"

definition serviceDown :: environment where
  "serviceDown =
     \<lparr>decoder = atobExample, reader = readerExample,
      firstAnswer = Resolved \<lparr>status = 500, contentType = ''text/plain'',
                               body = Inr ''model unavailable''\<rparr>,
      secondAnswer = Resolved \<lparr>status = 500, contentType = ''text/plain'',
                                body = Inr ''model unavailable''\<rparr>,
      requestOrder = FirstSettlesFirst, conversionOrder = FirstSettlesFirst,
      clock = 1700000000000\<rparr>"

definition serviceUp :: environment where
  "serviceUp =
     \<lparr>decoder = atobExample, reader = readerExample,
      firstAnswer = Resolved \<lparr>status = 200, contentType = ''image/png'', body = Inr ''AAAA''\<rparr>,
      secondAnswer = Resolved \<lparr>status = 200, contentType = ''image/png'', body = Inr ''BBBB''\<rparr>,
      requestOrder = SecondSettlesFirst, conversionOrder = FirstSettlesFirst,
      clock = 1700000000000\<rparr>"

definition compareReady :: compare_state where
  "compareReady = compareMounted\<lparr>originalPhoto := Some pickedFile\<rparr>"

definition originalExample :: File where
  "originalExample = \<lparr>file_name = ''original.jpg'', file_type = ''image/png'', file_bytes = ''abc''\<rparr>"

text \<open>
  A comparison screen after the initial generation and one regeneration of slot 1, for
  which the service answered with another image at the clock reading 1700000000000.
\<close>

definition serviceAgain :: environment where
  "serviceAgain =
     serviceUp\<lparr>firstAnswer :=
       Resolved \<lparr>status = 200, contentType = ''image/png'', body = Inr ''DDDD''\<rparr>\<rparr>"

definition compareShown :: compare_state where
  "compareShown =
     after (handleDesignChoice serviceAgain 0 (after (generateInitialDesigns serviceUp compareReady)))"

section \<open>Properties of the capture size\<close>

lemma bitLength_0: "bitLength 0 = 0"
  by (simp add: bitLength.simps)

lemma bitLength_One: "bitLength (Suc 0) = Suc 0"
  by (subst bitLength.simps) (simp add: bitLength_0)

lemma bitLength_1: "bitLength 1 = 1"
  using bitLength_One by simp

lemma bitLength_Bit0: "bitLength (numeral (Num.Bit0 k)) = Suc (bitLength (numeral k))"
  by (subst bitLength.simps) simp

lemma bitLength_Bit1: "bitLength (numeral (Num.Bit1 k)) = Suc (bitLength (numeral k))"
  by (subst bitLength.simps) simp

lemmas bitLength_numeral = bitLength_0 bitLength_1 bitLength_Bit0 bitLength_Bit1


lemma scale_3000: "nearestDouble 1920 3000 = (5764607523034235, 9007199254740992)"
  by (simp add: nearestDouble_def binade_def roundHalfEven_def Let_def bitLength_numeral)

lemma width_3000: "timesDouble 3000 (5764607523034235, 9007199254740992) = (8444249301319680, 4398046511104)"
  by (simp add: timesDouble_def nearestDouble_def binade_def roundHalfEven_def Let_def bitLength_numeral)

lemma height_2000: "timesDouble 2000 (5764607523034235, 9007199254740992) = (5629499534213120, 4398046511104)"
  by (simp add: timesDouble_def nearestDouble_def binade_def roundHalfEven_def Let_def bitLength_numeral)

lemma outputSize_3000_2000: "outputSize 3000 2000 = (1920, 1280)"
  by (simp add: outputSize_def maxDim_def scale_3000 width_3000 height_2000 mathRound_def)



lemma bitLength_bounds: "0 < n \<Longrightarrow> 2 ^ (bitLength n - 1) \<le> n \<and> n < 2 ^ bitLength n"
proof (induction n rule: bitLength.induct)
  case (1 n)
  show ?case
  proof (cases "n div 2 = 0")
    case True
    with "1.prems" have "n = 1" by (simp add: div_eq_0_iff)
    then show ?thesis by (simp add: bitLength_One)
  next
    case False
    then have pos: "0 < n div 2" by simp
    from "1.prems" have n: "n \<noteq> 0" by simp
    from "1.IH"[OF n pos]
    have lo: "2 ^ (bitLength (n div 2) - 1) \<le> n div 2" and hi: "n div 2 < 2 ^ bitLength (n div 2)"
      by simp_all
    have b: "bitLength n = Suc (bitLength (n div 2))"
      using n by (subst bitLength.simps) simp
    have "2 * 2 ^ (bitLength (n div 2) - 1) \<le> 2 * (n div 2)" using lo by simp
    also have "\<dots> \<le> n" by simp
    finally have "2 ^ (bitLength n - 1) \<le> n"
      using b pos hi by (cases "bitLength (n div 2)") auto
    moreover have "n < 2 * 2 ^ bitLength (n div 2)"
      using hi by linarith
    then have "n < 2 ^ bitLength n"
      by (simp add: b)
    ultimately show ?thesis by simp
  qed
qed

lemma binade_lower:
  assumes "0 < p" and "0 < q"
  shows "(2::rat) powi (binade p q) \<le> rat_of_nat p / rat_of_nat q"
proof -
  let ?bp = "bitLength p" and ?bq = "bitLength q"
  have pq: "(0::rat) < rat_of_nat q" "(0::rat) < rat_of_nat p" using assms by simp_all
  have diff: "(2::rat) powi (int ?bp - int ?bq) = 2 ^ ?bp / 2 ^ ?bq"
    by (simp add: power_int_diff)
  show ?thesis
  proof (cases "q * 2 ^ ?bp \<le> p * 2 ^ ?bq")
    case True
    then have "rat_of_nat (q * 2 ^ ?bp) \<le> rat_of_nat (p * 2 ^ ?bq)"
      by (simp only: of_nat_le_iff)
    then have "rat_of_nat q * 2 ^ ?bp \<le> rat_of_nat p * 2 ^ ?bq" by simp
    then have "(2::rat) ^ ?bp / 2 ^ ?bq \<le> rat_of_nat p / rat_of_nat q"
      using pq by (simp add: field_simps)
    with True show ?thesis by (simp add: binade_def diff)
  next
    case False
    from bitLength_bounds[OF assms(1)] have lo: "2 ^ (?bp - 1) \<le> p" by simp
    from bitLength_bounds[OF assms(2)] have hi: "q < 2 ^ ?bq" by simp
    have bp: "0 < ?bp" using assms(1) by (subst bitLength.simps) simp
    then have "(2::nat) ^ ?bp = 2 * 2 ^ (?bp - 1)" by (cases ?bp) simp_all
    then have "q * 2 ^ ?bp = 2 * (q * 2 ^ (?bp - 1))" by simp
    also have "\<dots> \<le> 2 * (2 ^ ?bq * p)"
      using lo hi by (intro mult_le_mono le_refl) (simp_all add: mult_le_mono)
    finally have "q * 2 ^ ?bp \<le> 2 * p * 2 ^ ?bq" by (simp add: mult_ac)
    then have "rat_of_nat (q * 2 ^ ?bp) \<le> rat_of_nat (2 * p * 2 ^ ?bq)"
      by (simp only: of_nat_le_iff)
    then have "rat_of_nat q * 2 ^ ?bp \<le> 2 * rat_of_nat p * 2 ^ ?bq" by simp
    then have "(2::rat) ^ ?bp / 2 ^ ?bq / 2 \<le> rat_of_nat p / rat_of_nat q"
      using pq by (simp add: field_simps)
    moreover have "(2::rat) powi (int ?bp - int ?bq - 1) = 2 ^ ?bp / 2 ^ ?bq / 2"
      by (simp add: power_int_diff)
    ultimately show ?thesis using False by (simp add: binade_def)
  qed
qed

lemma roundHalfEven_near:
  assumes "0 < q"
  shows "\<bar>rat_of_nat (roundHalfEven t q) - rat_of_nat t / rat_of_nat q\<bar> \<le> 1 / 2"
proof -
  let ?n = "t div q" and ?r = "t mod q"
  have q: "(0::rat) < rat_of_nat q" using assms by simp
  have t: "rat_of_nat t = rat_of_nat ?n * rat_of_nat q + rat_of_nat ?r"
    by (metis div_mult_mod_eq of_nat_add of_nat_mult)
  then have frac: "rat_of_nat t / rat_of_nat q = rat_of_nat ?n + rat_of_nat ?r / rat_of_nat q"
    using q by (simp add: field_simps)
  have rlt: "rat_of_nat ?r < rat_of_nat q" using assms by simp
  consider (lo) "2 * ?r < q" | (hi) "q < 2 * ?r" | (tie) "q = 2 * ?r" by linarith
  then show ?thesis
  proof cases
    case lo
    then have "rat_of_nat (2 * ?r) < rat_of_nat q" by (simp only: of_nat_less_iff)
    then have "rat_of_nat ?r / rat_of_nat q \<le> 1 / 2" using q by (simp add: field_simps)
    moreover have "0 \<le> rat_of_nat ?r / rat_of_nat q" using q by simp
    moreover have "roundHalfEven t q = ?n" using lo by (simp add: roundHalfEven_def Let_def)
    ultimately show ?thesis by (simp add: frac)
  next
    case hi
    then have "rat_of_nat q < rat_of_nat (2 * ?r)" by (simp only: of_nat_less_iff)
    then have "1 / 2 \<le> rat_of_nat ?r / rat_of_nat q" using q by (simp add: field_simps)
    moreover have "rat_of_nat ?r / rat_of_nat q \<le> 1" using q rlt by (simp add: field_simps)
    moreover have "roundHalfEven t q = ?n + 1" using hi by (simp add: roundHalfEven_def Let_def)
    ultimately show ?thesis by (simp add: frac)
  next
    case tie
    then have "rat_of_nat q = rat_of_nat (2 * ?r)" by simp
    then have "rat_of_nat ?r / rat_of_nat q = 1 / 2" using q by (simp add: field_simps)
    then have half: "rat_of_nat t / rat_of_nat q = rat_of_nat ?n + 1 / 2"
      by (simp only: frac)
    have "roundHalfEven t q = ?n \<or> roundHalfEven t q = ?n + 1"
      using tie by (simp add: roundHalfEven_def Let_def)
    then show ?thesis unfolding half by auto
  qed
qed


lemma abs_scaled_down:
  fixes a b c d :: rat
  assumes "0 < c" and "\<bar>a - b * c\<bar> \<le> d"
  shows "\<bar>a / c - b\<bar> \<le> d / c"
proof -
  have "a / c - b = (a - b * c) / c" using assms(1) by (simp add: field_simps)
  then have "\<bar>a / c - b\<bar> = \<bar>a - b * c\<bar> / c" using assms(1) by simp
  also have "\<dots> \<le> d / c" using assms by (intro divide_right_mono) simp_all
  finally show ?thesis .
qed

lemma abs_scaled_up:
  fixes a b c d :: rat
  assumes "0 < c" and "\<bar>a - b / c\<bar> \<le> d"
  shows "\<bar>a * c - b\<bar> \<le> d * c"
proof -
  have "a * c - b = (a - b / c) * c" using assms(1) by (simp add: field_simps)
  then have "\<bar>a * c - b\<bar> = \<bar>a - b / c\<bar> * c" using assms(1) by (simp add: abs_mult)
  also have "\<dots> \<le> d * c" using assms by (intro mult_right_mono) simp_all
  finally show ?thesis .
qed

lemma nearestDouble_error:
  assumes "0 < q"
  shows "0 < snd (nearestDouble p q)
         \<and> \<bar>valueOf (nearestDouble p q) - rat_of_nat p / rat_of_nat q\<bar>
             \<le> rat_of_nat p / rat_of_nat q / 2 ^ 53"
proof (cases "p = 0")
  case True
  then show ?thesis by (simp add: nearestDouble_def valueOf_def)
next
  case False
  then have p: "0 < p" by simp
  let ?x = "rat_of_nat p / rat_of_nat q"
  let ?s = "52 - binade p q"
  have q: "(0::rat) < rat_of_nat q" using assms by simp
  from binade_lower[OF p assms] have lb: "(2::rat) powi (binade p q) \<le> ?x" .
  show ?thesis
  proof (cases "0 \<le> ?s")
    case True
    define n where "n = nat ?s"
    have e: "binade p q = 52 - int n" using True by (simp add: n_def)
    have res: "nearestDouble p q = (roundHalfEven (p * 2 ^ n) q, 2 ^ n)"
      using False True by (simp add: nearestDouble_def Let_def n_def)
    have "(2::rat) powi (52 - int n) = 2 ^ 52 / 2 ^ n"
      by (simp add: power_int_diff)
    with lb e have lb': "(2::rat) ^ 52 / 2 ^ n \<le> ?x" by simp
    from roundHalfEven_near[OF assms, of "p * 2 ^ n"]
    have "\<bar>rat_of_nat (roundHalfEven (p * 2 ^ n) q) - ?x * 2 ^ n\<bar> \<le> 1 / 2"
      by (simp add: field_simps)
    then have "\<bar>rat_of_nat (roundHalfEven (p * 2 ^ n) q) / 2 ^ n - ?x\<bar> \<le> 1 / 2 / 2 ^ n"
      by (intro abs_scaled_down) simp_all
    moreover have "(1::rat) / 2 / 2 ^ n = 2 ^ 52 / 2 ^ n / 2 ^ 53" by simp
    moreover have "(2::rat) ^ 52 / 2 ^ n / 2 ^ 53 \<le> ?x / 2 ^ 53"
      using lb' by (intro divide_right_mono) simp_all
    ultimately have "\<bar>rat_of_nat (roundHalfEven (p * 2 ^ n) q) / 2 ^ n - ?x\<bar> \<le> ?x / 2 ^ 53"
      by linarith
    then show ?thesis by (simp add: res valueOf_def)
  next
    case False
    define n where "n = nat (- ?s)"
    have e: "binade p q = 52 + int n" using False by (simp add: n_def)
    have res: "nearestDouble p q = (roundHalfEven p (q * 2 ^ n) * 2 ^ n, 1)"
      using \<open>p \<noteq> 0\<close> False by (simp add: nearestDouble_def Let_def n_def)
    have "(2::rat) powi (52 + int n) = 2 ^ 52 * 2 ^ n"
      by (simp add: power_int_add)
    with lb e have lb': "(2::rat) ^ 52 * 2 ^ n \<le> ?x" by simp
    have qn: "0 < q * 2 ^ n" using assms by simp
    from roundHalfEven_near[OF qn, of p]
    have "\<bar>rat_of_nat (roundHalfEven p (q * 2 ^ n)) - ?x / 2 ^ n\<bar> \<le> 1 / 2"
      by (simp add: field_simps)
    then have "\<bar>rat_of_nat (roundHalfEven p (q * 2 ^ n)) * 2 ^ n - ?x\<bar> \<le> 1 / 2 * 2 ^ n"
      by (intro abs_scaled_up) simp_all
    moreover have "(1::rat) / 2 * 2 ^ n = 2 ^ 52 * 2 ^ n / 2 ^ 53" by simp
    moreover have "(2::rat) ^ 52 * 2 ^ n / 2 ^ 53 \<le> ?x / 2 ^ 53"
      using lb' by (intro divide_right_mono) simp_all
    ultimately have "\<bar>rat_of_nat (roundHalfEven p (q * 2 ^ n)) * 2 ^ n - ?x\<bar> \<le> ?x / 2 ^ 53"
      by linarith
    then show ?thesis by (simp add: res valueOf_def)
  qed
qed

lemma two_roundings:
  fixes x y z eps :: rat
  assumes "0 \<le> x" and "0 \<le> eps" and "eps \<le> 1"
    and "\<bar>y - x\<bar> \<le> x * eps" and "\<bar>z - y\<bar> \<le> y * eps"
  shows "\<bar>z - x\<bar> \<le> x * (3 * eps)"
proof -
  have "x * eps \<le> x * 1" using assms(1,3) by (intro mult_left_mono) simp_all
  with assms(4) have y: "y \<le> 2 * x" by linarith
  have "y * eps \<le> (2 * x) * eps" using y assms(2) by (intro mult_right_mono) simp_all
  with assms(4,5) have "\<bar>z - x\<bar> \<le> x * eps + 2 * x * eps" by linarith
  then show ?thesis by (simp add: algebra_simps)
qed



lemma mathRound_floor:
  assumes "0 < snd x"
  shows "mathRound x = \<lfloor>valueOf x + 1 / 2\<rfloor>"
proof -
  have d: "(0::rat) < rat_of_nat (snd x)" using assms by simp
  have "valueOf x + 1 / 2 = rat_of_nat (2 * fst x + snd x) / rat_of_nat (2 * snd x)"
    using d by (simp add: valueOf_def field_simps)
  then have "\<lfloor>valueOf x + 1 / 2\<rfloor> = \<lfloor>rat_of_nat (2 * fst x + snd x) / rat_of_nat (2 * snd x)\<rfloor>"
    by simp
  also have "\<dots> = int ((2 * fst x + snd x) div (2 * snd x))"
    by (rule floor_divide_of_nat_eq)
  finally show ?thesis by (simp add: mathRound_def)
qed

lemma scaled_error:
  assumes "maxDim < m"
  shows "0 < snd (timesDouble a (nearestDouble maxDim m))
     \<and> \<bar>valueOf (timesDouble a (nearestDouble maxDim m)) - rat_of_nat a * (rat_of_nat maxDim / rat_of_nat m)\<bar>
         \<le> rat_of_nat a * (rat_of_nat maxDim / rat_of_nat m) * (3 * (1 / 2 ^ 53))"
proof -
  let ?scale = "nearestDouble maxDim m"
  let ?s = "rat_of_nat maxDim / rat_of_nat m"
  have m: "0 < m" using assms by simp
  from nearestDouble_error[OF m, of maxDim]
  have d: "0 < snd ?scale" and es: "\<bar>valueOf ?scale - ?s\<bar> \<le> ?s / 2 ^ 53" by simp_all
  from nearestDouble_error[OF d, of "a * fst ?scale"]
  have d2: "0 < snd (timesDouble a ?scale)"
    and ep: "\<bar>valueOf (timesDouble a ?scale) - rat_of_nat (a * fst ?scale) / rat_of_nat (snd ?scale)\<bar>
             \<le> rat_of_nat (a * fst ?scale) / rat_of_nat (snd ?scale) / 2 ^ 53"
    by (simp_all add: timesDouble_def)
  have y: "rat_of_nat (a * fst ?scale) / rat_of_nat (snd ?scale) = rat_of_nat a * valueOf ?scale"
    by (simp add: valueOf_def)
  have conv1: "\<And>v::rat. v * (1 / 2 ^ 53) = v / 2 ^ 53" by simp
  have "rat_of_nat a * valueOf ?scale - rat_of_nat a * ?s = rat_of_nat a * (valueOf ?scale - ?s)"
    by (simp only: right_diff_distrib)
  then have "\<bar>rat_of_nat a * valueOf ?scale - rat_of_nat a * ?s\<bar> = \<bar>rat_of_nat a * (valueOf ?scale - ?s)\<bar>"
    by (simp only:)
  also have "\<dots> = rat_of_nat a * \<bar>valueOf ?scale - ?s\<bar>"
    by (simp only: abs_mult abs_of_nat)
  also have "\<dots> \<le> rat_of_nat a * (?s / 2 ^ 53)"
    using es by (intro mult_left_mono) simp_all
  finally have e1: "\<bar>rat_of_nat a * valueOf ?scale - rat_of_nat a * ?s\<bar> \<le> rat_of_nat a * ?s * (1 / 2 ^ 53)"
    by (simp only: conv1 times_divide_eq_right)
  have conv: "\<And>v::rat. v * (1 / 2 ^ 53) = v / 2 ^ 53" by simp
  have e2: "\<bar>valueOf (timesDouble a ?scale) - rat_of_nat a * valueOf ?scale\<bar>
            \<le> rat_of_nat a * valueOf ?scale * (1 / 2 ^ 53)"
    unfolding conv using ep[unfolded y] .
  have x0: "0 \<le> rat_of_nat a * ?s" by simp
  have "\<bar>valueOf (timesDouble a ?scale) - rat_of_nat a * ?s\<bar> \<le> rat_of_nat a * ?s * (3 * (1 / 2 ^ 53))"
    using x0 _ _ e1 e2 by (rule two_roundings) simp_all
  with d2 show ?thesis by simp
qed

lemma scaled_at_most_maxDim:
  assumes "maxDim < m" and "a \<le> m"
  shows "rat_of_nat a * (rat_of_nat maxDim / rat_of_nat m) \<le> 1920"
proof -
  have "rat_of_nat a * (rat_of_nat maxDim / rat_of_nat m) \<le> rat_of_nat maxDim"
    using assms by (simp add: field_simps mult_le_mono1 flip: of_nat_mult)
  then show ?thesis by (simp add: maxDim_def)
qed

lemma rounded_side:
  assumes "maxDim < m" and "a \<le> m"
  shows "mathRound (timesDouble a (nearestDouble maxDim m)) \<le> 1920
     \<and> 0 \<le> mathRound (timesDouble a (nearestDouble maxDim m))
     \<and> \<bar>rat_of_int (mathRound (timesDouble a (nearestDouble maxDim m)))
          - rat_of_nat a * (rat_of_nat maxDim / rat_of_nat m)\<bar> \<le> 1 / 2 + 1 / 2 ^ 40"
proof -
  let ?z = "valueOf (timesDouble a (nearestDouble maxDim m))"
  let ?x = "rat_of_nat a * (rat_of_nat maxDim / rat_of_nat m)"
  from scaled_error[OF assms(1), of a]
  have d: "0 < snd (timesDouble a (nearestDouble maxDim m))"
    and e: "\<bar>?z - ?x\<bar> \<le> ?x * (3 * (1 / 2 ^ 53))" by simp_all
  have x: "?x \<le> 1920" using assms by (rule scaled_at_most_maxDim)
  have "?x * (3 * (1 / 2 ^ 53)) \<le> 1920 * (3 * (1 / 2 ^ 53))"
    using x by (intro mult_right_mono) simp_all
  also have "\<dots> \<le> (1::rat) / 2 ^ 40" by simp
  finally have small: "\<bar>?z - ?x\<bar> \<le> 1 / 2 ^ 40" using e by linarith
  have r: "mathRound (timesDouble a (nearestDouble maxDim m)) = \<lfloor>?z + 1 / 2\<rfloor>"
    using d by (rule mathRound_floor)
  have tiny: "(1::rat) / 2 ^ 40 < 1 / 2" by simp
  have "?z + 1 / 2 < 1921" using small x tiny by linarith
  then have "\<lfloor>?z + 1 / 2\<rfloor> < 1921" by (simp add: floor_less_iff)
  then have up: "\<lfloor>?z + 1 / 2\<rfloor> \<le> 1920" by simp
  have near: "\<bar>rat_of_int \<lfloor>?z + 1 / 2\<rfloor> - ?z\<bar> \<le> 1 / 2" by linarith
  have "0 \<le> ?z" by (simp add: valueOf_def)
  then have lo: "0 \<le> \<lfloor>?z + 1 / 2\<rfloor>" by simp
  from near small have "\<bar>rat_of_int \<lfloor>?z + 1 / 2\<rfloor> - ?x\<bar> \<le> 1 / 2 + 1 / 2 ^ 40"
    by linarith
  with up lo show ?thesis by (simp add: r)
qed

lemma outputSize_bound:
  "fst (outputSize w h) \<le> 1920 \<and> snd (outputSize w h) \<le> 1920
   \<and> 0 \<le> fst (outputSize w h) \<and> 0 \<le> snd (outputSize w h)"
proof (cases "max w h > maxDim")
  case True
  have "w \<le> max w h" and "h \<le> max w h" by simp_all
  with True rounded_side[of "max w h" w] rounded_side[of "max w h" h]
  show ?thesis by (simp add: outputSize_def Let_def)
next
  case False
  then show ?thesis by (auto simp add: outputSize_def maxDim_def)
qed

lemma outputSize_ratio:
  "\<bar>rat_of_int (fst (outputSize w h)) - scaleOf w h * rat_of_nat w\<bar> \<le> 1 / 2 + 1 / 2 ^ 40
   \<and> \<bar>rat_of_int (snd (outputSize w h)) - scaleOf w h * rat_of_nat h\<bar> \<le> 1 / 2 + 1 / 2 ^ 40"
proof (cases "max w h > maxDim")
  case True
  have "w \<le> max w h" and "h \<le> max w h" by simp_all
  with True rounded_side[of "max w h" w] rounded_side[of "max w h" h]
  show ?thesis by (simp add: outputSize_def scaleOf_def Let_def mult.commute)
next
  case False
  then show ?thesis by (simp add: outputSize_def scaleOf_def)
qed

lemma scaleOf_range: "0 < scaleOf w h \<and> scaleOf w h \<le> 1"
  by (simp add: scaleOf_def maxDim_def)

lemma scale_2816: "nearestDouble 1920 2816 = (6141272219141585, 9007199254740992)"
  by (simp add: nearestDouble_def binade_def roundHalfEven_def Let_def bitLength_numeral)

lemma width_2816: "timesDouble 2816 (6141272219141585, 9007199254740992) = (8444249301319679, 4398046511104)"
  by (simp add: timesDouble_def nearestDouble_def binade_def roundHalfEven_def Let_def bitLength_numeral)

lemma height_1133: "timesDouble 1133 (6141272219141585, 9007199254740992) = (6794981859655679, 8796093022208)"
  by (simp add: timesDouble_def nearestDouble_def binade_def roundHalfEven_def Let_def bitLength_numeral)

lemma outputSize_2816_1133: "outputSize 2816 1133 = (1920, 772)"
  by (simp add: outputSize_def maxDim_def scale_2816 width_2816 height_1133 mathRound_def)

lemma capture_canvas:
  assumes "videoMounted (ui w)" and "contextAvailable f"
  shows "canvas (capture f w) = outputSize (sourceWidth f w) (sourceHeight f w)
         \<and> frozenFrame (ui (capture f w)) = Some (toDataURL f (canvas (capture f w)))"
  using assms
  by (simp add: capture_def Let_def stopCamera_def captureSize_def sourceWidth_def sourceHeight_def)

lemma captureOld_canvas:
  assumes "videoMounted (ui w)" and "contextAvailable f"
  shows "canvas (captureOld f w) = outputSize (sourceWidthOld f) (sourceHeightOld f)
         \<and> (\<forall>b. toBlob f (canvas (captureOld f w)) = Some b \<longrightarrow>
               blob (ui (captureOld f w)) = Some b
               \<and> frozenFrame (ui (captureOld f w)) = Some (createObjectURL f b))"
  using assms
  by (auto simp add: captureOld_def Let_def stopCamera_def captureSizeOld_def captureSize_def
                     sourceWidthOld_def sourceHeightOld_def split: option.splits)

lemma streamingExample_state:
  "streamingExample =
     (cameraInitial True True (Available Map.empty))
       \<lparr>ui := \<lparr>stream = Some 0, blob = None, busy = False, cameraError = None,
               frozenFrame = None, showToast = False, uploadedImage = None\<rparr>,
        streams := [wideCamera]\<rparr>"
  by (simp add: streamingExample_def run_def cameraInitial_def wideCamera_def overlayShown_def
                truthy_def startCamera_def startCameraGranted_def startCameraFinish_def
                videoMounted_def Let_def)

lemma streamingExample_source:
  "videoMounted (ui streamingExample)
   \<and> sourceWidth frameExample streamingExample = 3000
   \<and> sourceHeight frameExample streamingExample = 2000
   \<and> sourceWidthOld wideFrameExample = 3000 \<and> sourceHeightOld wideFrameExample = 2000
   \<and> sourceWidthOld frameExample = 1280 \<and> sourceHeightOld frameExample = 720"
  by (simp add: streamingExample_state cameraInitial_def videoMounted_def truthy_def
                sourceWidth_def sourceHeight_def sourceWidthOld_def sourceHeightOld_def
                firstVideoTrack_def element_def wideCamera_def frameExample_def
                wideFrameExample_def frameWidth_def frameHeight_def getSettings_def orNumber_def)

text \<open>
  Claim C1. Whenever \<open>capture\<close> gets as far as encoding (the video element is mounted and
  the canvas yields a context), the canvas it encodes has the size \<open>outputSize\<close> gives for
  the width and height read from the track settings, the video element or the fall-back
  sizes 1280 and 720, and the frozen frame is the encoding of that canvas. Neither side
  of the canvas exceeds 1920, and each side is the source side times one common factor
  \<open>scaleOf\<close> in (0, 1], up to the rounding to an integer: half a pixel, and the error of
  the two binary64 roundings, which is below \<open>1 / 2 ^ 40\<close>. The same holds for the older
  copy of the component, whose blob is the encoding of its canvas. A frame of 3000 by
  2000 gives a canvas of 1920 by 1280, which is 3:2.
\<close>

theorem capture_output_bounded_and_proportional:
  assumes "videoMounted (ui w)" and "contextAvailable f"
  shows "canvas (capture f w) = outputSize (sourceWidth f w) (sourceHeight f w)
   \<and> frozenFrame (ui (capture f w)) = Some (toDataURL f (canvas (capture f w)))
   \<and> max (fst (canvas (capture f w))) (snd (canvas (capture f w))) \<le> 1920
   \<and> 0 \<le> fst (canvas (capture f w)) \<and> 0 \<le> snd (canvas (capture f w))
   \<and> 0 < scaleOf (sourceWidth f w) (sourceHeight f w)
   \<and> scaleOf (sourceWidth f w) (sourceHeight f w) \<le> 1
   \<and> \<bar>rat_of_int (fst (canvas (capture f w)))
        - scaleOf (sourceWidth f w) (sourceHeight f w) * rat_of_nat (sourceWidth f w)\<bar>
       \<le> 1 / 2 + 1 / 2 ^ 40
   \<and> \<bar>rat_of_int (snd (canvas (capture f w)))
        - scaleOf (sourceWidth f w) (sourceHeight f w) * rat_of_nat (sourceHeight f w)\<bar>
       \<le> 1 / 2 + 1 / 2 ^ 40
   \<and> canvas (captureOld f w) = outputSize (sourceWidthOld f) (sourceHeightOld f)
   \<and> (\<forall>b. toBlob f (canvas (captureOld f w)) = Some b \<longrightarrow>
         blob (ui (captureOld f w)) = Some b
         \<and> frozenFrame (ui (captureOld f w)) = Some (createObjectURL f b))
   \<and> max (fst (canvas (captureOld f w))) (snd (canvas (captureOld f w))) \<le> 1920
   \<and> 0 \<le> fst (canvas (captureOld f w)) \<and> 0 \<le> snd (canvas (captureOld f w))
   \<and> \<bar>rat_of_int (fst (canvas (captureOld f w)))
        - scaleOf (sourceWidthOld f) (sourceHeightOld f) * rat_of_nat (sourceWidthOld f)\<bar>
       \<le> 1 / 2 + 1 / 2 ^ 40
   \<and> \<bar>rat_of_int (snd (canvas (captureOld f w)))
        - scaleOf (sourceWidthOld f) (sourceHeightOld f) * rat_of_nat (sourceHeightOld f)\<bar>
       \<le> 1 / 2 + 1 / 2 ^ 40
   \<and> outputSize 3000 2000 = (1920, 1280)"
proof -
  note new = capture_canvas[OF assms]
  note old = captureOld_canvas[OF assms]
  have cn: "canvas (capture f w) = outputSize (sourceWidth f w) (sourceHeight f w)"
    using new by simp
  have co: "canvas (captureOld f w) = outputSize (sourceWidthOld f) (sourceHeightOld f)"
    using old by simp
  have bn: "max (fst (canvas (capture f w))) (snd (canvas (capture f w))) \<le> 1920
            \<and> 0 \<le> fst (canvas (capture f w)) \<and> 0 \<le> snd (canvas (capture f w))"
    unfolding cn using outputSize_bound[of "sourceWidth f w" "sourceHeight f w"] by simp
  have bo: "max (fst (canvas (captureOld f w))) (snd (canvas (captureOld f w))) \<le> 1920
            \<and> 0 \<le> fst (canvas (captureOld f w)) \<and> 0 \<le> snd (canvas (captureOld f w))"
    unfolding co using outputSize_bound[of "sourceWidthOld f" "sourceHeightOld f"] by simp
  have rn: "\<bar>rat_of_int (fst (canvas (capture f w)))
        - scaleOf (sourceWidth f w) (sourceHeight f w) * rat_of_nat (sourceWidth f w)\<bar>
       \<le> 1 / 2 + 1 / 2 ^ 40
     \<and> \<bar>rat_of_int (snd (canvas (capture f w)))
        - scaleOf (sourceWidth f w) (sourceHeight f w) * rat_of_nat (sourceHeight f w)\<bar>
       \<le> 1 / 2 + 1 / 2 ^ 40"
    unfolding cn by (rule outputSize_ratio)
  have ro: "\<bar>rat_of_int (fst (canvas (captureOld f w)))
        - scaleOf (sourceWidthOld f) (sourceHeightOld f) * rat_of_nat (sourceWidthOld f)\<bar>
       \<le> 1 / 2 + 1 / 2 ^ 40
     \<and> \<bar>rat_of_int (snd (canvas (captureOld f w)))
        - scaleOf (sourceWidthOld f) (sourceHeightOld f) * rat_of_nat (sourceHeightOld f)\<bar>
       \<le> 1 / 2 + 1 / 2 ^ 40"
    unfolding co by (rule outputSize_ratio)
  show ?thesis
    using new old bn bo rn ro scaleOf_range[of "sourceWidth f w" "sourceHeight f w"]
          outputSize_3000_2000
    by blast
qed

theorem capture_output_witness:
  "videoMounted (ui streamingExample) \<and> contextAvailable frameExample
   \<and> contextAvailable wideFrameExample
   \<and> sourceWidth frameExample streamingExample = 3000
   \<and> sourceHeight frameExample streamingExample = 2000
   \<and> canvas (capture frameExample streamingExample) = (1920, 1280)
   \<and> frozenFrame (ui (capture frameExample streamingExample)) = Some ''data:image/jpeg;base64,AAAA''
   \<and> canvas (captureOld wideFrameExample streamingExample) = (1920, 1280)
   \<and> toBlob wideFrameExample (1920, 1280) = Some ''jpeg''
   \<and> blob (ui (captureOld wideFrameExample streamingExample)) = Some ''jpeg''
   \<and> canvas (captureOld frameExample streamingExample) = (1280, 720)"
proof -
  have m: "videoMounted (ui streamingExample)" using streamingExample_source by simp
  have c1: "contextAvailable frameExample" by (simp add: frameExample_def)
  have c2: "contextAvailable wideFrameExample" by (simp add: wideFrameExample_def frameExample_def)
  have fallback: "outputSize 1280 720 = (1280, 720)" by (simp add: outputSize_def maxDim_def)
  have enc: "toDataURL frameExample (1920, 1280) = ''data:image/jpeg;base64,AAAA''"
    by (simp add: frameExample_def)
  have blb: "toBlob wideFrameExample (1920, 1280) = Some ''jpeg''"
    by (simp add: wideFrameExample_def frameExample_def)
  show ?thesis
    using capture_output_bounded_and_proportional[OF m c1]
          capture_output_bounded_and_proportional[OF m c2]
          m c1 c2 streamingExample_source fallback enc blb
    by simp
qed

section \<open>Properties of the category selector\<close>

lemma set_toggle:
  "set (toggle c S) = (if c \<in> set S then set S - {c} else insert c (set S))"
  by (simp add: toggle_def)

lemma toggle_toggle_set: "set (toggle c (toggle c S)) = set S"
  by (auto simp add: set_toggle)

lemma distinct_toggle: "distinct S \<Longrightarrow> distinct (toggle c S)"
  by (simp add: toggle_def distinct_removeAll)

lemma toggle_member: "(c \<in> set (toggle c S)) = (c \<notin> set S)"
  by (simp add: set_toggle)

text \<open>
  Claim C9. Toggling a category twice gives back the same selection set, for the list of
  a selection and for the state of the page; one toggle flips the membership of the
  category and of no other (it removes the category when present and adds it when
  absent); and a selection without duplicates stays without duplicates.
\<close>

theorem toggle_is_involution_with_set_semantics:
  "set (toggle c (toggle c S)) = set S
   \<and> set (selectedCategories (toggleCategory c (toggleCategory c st))) = set (selectedCategories st)
   \<and> (c \<in> set (toggle c S)) = (c \<notin> set S)
   \<and> set (toggle c S) = (if c \<in> set S then set S - {c} else insert c (set S))
   \<and> (distinct S \<longrightarrow> distinct (toggle c S) \<and> distinct (toggle c (toggle c S)))"
  by (simp add: toggle_toggle_set toggle_member set_toggle[of c S] distinct_toggle toggleCategory_def)

theorem toggle_is_involution_witness:
  "distinct [''floor'', ''decor'']
   \<and> toggle ''floor'' [''floor'', ''decor''] = [''decor'']
   \<and> toggle ''floor'' (toggle ''floor'' [''floor'', ''decor'']) = [''decor'', ''floor'']
   \<and> set (toggle ''floor'' (toggle ''floor'' [''floor'', ''decor''])) = set [''floor'', ''decor'']
   \<and> distinct (toggle ''floor'' (toggle ''floor'' [''floor'', ''decor'']))"
  using toggle_is_involution_with_set_semantics[of "''floor''" "[''floor'', ''decor'']" previewInitial]
  by (simp add: toggle_def)

lemma prepareImage_ok:
  "prepareImage atob url sel sto = Inr (sto', target) \<Longrightarrow>
     startsWith ''data:image/'' url \<and> setItem sto ''designPhoto'' url = Inr sto'
     \<and> target = Route ''/compare'' (Some (join '','' sel))"
  by (auto simp add: prepareImage_def Let_def
           split: if_splits list.splits option.splits sum.splits)

lemma prepareImage_checked:
  "prepareImage atob url sel sto = Inr (sto', target) \<Longrightarrow>
     \<exists>header rest b decoded.
       split CHR '','' url = header # rest \<and> includes_str '';base64'' header
       \<and> element rest 0 = Some b \<and> b \<noteq> [] \<and> atob b = Some decoded"
  by (auto simp add: prepareImage_def Let_def truthy_def
           split: if_splits list.splits option.splits sum.splits)

lemma handleGenerateDesign_outcome:
  assumes "imageUrl st = Some url"
  shows "(\<exists>sto' target. prepareImage atob url (selectedCategories st) sto = Inr (sto', target)
            \<and> navigated (handleGenerateDesign atob st sto) = [Push target])
         \<or> (navigated (handleGenerateDesign atob st sto) = []
             \<and> session (handleGenerateDesign atob st sto) = sto
             \<and> page (handleGenerateDesign atob st sto) = st
             \<and> (\<exists>label cause. logged (handleGenerateDesign atob st sto) = [LogError label cause]))"
  using assms
  by (auto simp add: handleGenerateDesign_def prepareImage_def Let_def
           split: if_splits list.splits option.splits sum.splits)

lemma split_parts:
  "split c payload =
     takeWhile (\<lambda>x. x \<noteq> c) payload
     # (case dropWhile (\<lambda>x. x \<noteq> c) payload of [] \<Rightarrow> [] | comma # rest \<Rightarrow> split c rest)"
  by (induction payload) (auto split: list.splits)

lemma split_comma:
  "split CHR '','' payload =
     headerOf payload # (case dataOf payload of None \<Rightarrow> [] | Some d \<Rightarrow> split CHR '','' d)"
  by (subst split_parts)
     (simp add: headerOf_def dataOf_def del: dropWhile_eq_Nil_conv split: list.split)

lemma split_single: "c \<notin> set x \<Longrightarrow> split c x = [x]"
  by (induction x) auto

text \<open>
  On a payload whose data holds no further comma the handler does what the claim says:
  when one of the three checks fails nothing is pushed to the router, the storage is as
  it was, the state of the page is untouched and one console error is logged.
\<close>

lemma generate_aborts_on_failed_check:
  assumes "imageUrl st = Some url"
    and "\<forall>d. dataOf url = Some d \<longrightarrow> CHR '','' \<notin> set d"
    and "\<not> passesImageChecks atob url"
  shows "navigated (handleGenerateDesign atob st sto) = []
         \<and> session (handleGenerateDesign atob st sto) = sto
         \<and> page (handleGenerateDesign atob st sto) = st
         \<and> (\<exists>label cause. logged (handleGenerateDesign atob st sto) = [LogError label cause])"
proof -
  have "\<not> (\<exists>sto' target. prepareImage atob url (selectedCategories st) sto = Inr (sto', target))"
  proof
    assume "\<exists>sto' target. prepareImage atob url (selectedCategories st) sto = Inr (sto', target)"
    then obtain sto' target where
      ok: "prepareImage atob url (selectedCategories st) sto = Inr (sto', target)" by blast
    from prepareImage_ok[OF ok] have prefix: "startsWith ''data:image/'' url" by simp
    from prepareImage_checked[OF ok] obtain header rest b decoded where
      parts: "split CHR '','' url = header # rest" "includes_str '';base64'' header"
        "element rest 0 = Some b" "atob b = Some decoded"
      by blast
    from parts(1) split_comma[of url] have h: "headerOf url = header"
      and r: "rest = (case dataOf url of None \<Rightarrow> [] | Some d \<Rightarrow> split CHR '','' d)"
      by simp_all
    from parts(3) r obtain d where d: "dataOf url = Some d" "rest = split CHR '','' d"
      by (cases "dataOf url") (simp_all add: element_def)
    from assms(2) d(1) have "CHR '','' \<notin> set d" by simp
    then have "rest = [d]" using d(2) by (simp add: split_single)
    with parts(3) have "b = d" by (simp add: element_def)
    with prefix h parts(2,4) d(1) have "passesImageChecks atob url"
      by (simp add: passesImageChecks_def)
    with assms(3) show False by simp
  qed
  with handleGenerateDesign_outcome[OF assms(1), of atob sto] show ?thesis by blast
qed

lemma handleGenerateDesign_example:
  "handleGenerateDesign atobExample (previewExample ''data:image/png;base64,AAAA'') (Available Map.empty)
   = \<lparr>page = previewExample ''data:image/png;base64,AAAA'',
      session = Available [''designPhoto'' \<mapsto> ''data:image/png;base64,AAAA''],
      navigated = [Push (Route ''/compare'' (Some ''floor''))], logged = []\<rparr>"
  by (simp add: handleGenerateDesign_def prepareImage_def previewExample_def startsWith_def
                element_def atobExample_def setItem_def truthy_def)

text \<open>
  Claim C8, at the input where the code departs from it. The payload
  \<open>data:image/png;base64,AAAA,!!!!\<close> has the prefix and the marker, and its data
  \<open>AAAA,!!!!\<close> does not decode as base64 (a comma and an exclamation mark are outside the
  alphabet), so it fails the third check. \<open>handleGenerateDesign\<close> decodes only the text
  between the first and the second comma, \<open>AAAA\<close>, which decodes: it writes the whole
  payload to \<open>designPhoto\<close>, pushes the comparison route and logs nothing.
\<close>

theorem generate_navigates_with_undecodable_data:
  "startsWith ''data:image/'' ''data:image/png;base64,AAAA,!!!!''
   \<and> includes_str '';base64'' (headerOf ''data:image/png;base64,AAAA,!!!!'')
   \<and> dataOf ''data:image/png;base64,AAAA,!!!!'' = Some ''AAAA,!!!!''
   \<and> atobExample ''AAAA,!!!!'' = None
   \<and> \<not> passesImageChecks atobExample ''data:image/png;base64,AAAA,!!!!''
   \<and> handleGenerateDesign atobExample (previewExample ''data:image/png;base64,AAAA,!!!!'')
         (Available Map.empty)
       = \<lparr>page = previewExample ''data:image/png;base64,AAAA,!!!!'',
          session = Available [''designPhoto'' \<mapsto> ''data:image/png;base64,AAAA,!!!!''],
          navigated = [Push (Route ''/compare'' (Some ''floor''))], logged = []\<rparr>"
  by (simp add: passesImageChecks_def headerOf_def dataOf_def startsWith_def atobExample_def
                handleGenerateDesign_def prepareImage_def previewExample_def element_def
                setItem_def truthy_def)

lemma split_append_sep: "c \<notin> set x \<Longrightarrow> split c (x @ c # r) = x # split c r"
  by (induction x) auto

lemma split_join:
  "xs \<noteq> [] \<Longrightarrow> (\<And>x. x \<in> set xs \<Longrightarrow> c \<notin> set x) \<Longrightarrow> split c (join [c] xs) = xs"
proof (induction "[c]" xs rule: join.induct)
  case 1
  then show ?case by simp
next
  case (2 x)
  then show ?case by (simp add: split_single)
next
  case (3 x y ys)
  then show ?case by (simp add: split_append_sep)
qed

lemma join_nonempty: "xs \<noteq> [] \<Longrightarrow> (\<And>x. x \<in> set xs \<Longrightarrow> x \<noteq> []) \<Longrightarrow> join sep xs \<noteq> []"
  by (induction sep xs rule: join.induct) auto

lemma category_ids:
  "x \<in> set (map cat_id designCategories) \<Longrightarrow> x \<noteq> [] \<and> CHR '','' \<notin> set x"
  by (auto simp add: designCategories_def)

lemma loadCapturedPhoto_page:
  "page (loadCapturedPhoto st sto) = st
   \<or> (\<exists>photo. photo \<noteq> [] \<and> page (loadCapturedPhoto st sto) = st\<lparr>imageUrl := Some photo\<rparr>)"
  by (auto simp add: loadCapturedPhoto_def truthy_def split: sum.splits option.splits)

lemma previewReachable_invariant:
  "previewReachable st \<Longrightarrow>
     (\<not> truthy (imageUrl st) \<longrightarrow> selectedCategories st = [])
     \<and> set (selectedCategories st) \<subseteq> set (map cat_id designCategories)
     \<and> distinct (selectedCategories st)"
proof (induction rule: previewReachable.induct)
  case start
  then show ?case by (simp add: previewInitial_def)
next
  case (mount st)
  then show ?case by simp
next
  case (effect st sto)
  from loadCapturedPhoto_page[of st sto] effect.IH show ?case
    by (auto simp add: truthy_def)
next
  case (click st c)
  then show ?case
    by (auto simp add: toggleCategory_def categoriesShown_def set_toggle distinct_toggle)
qed

lemma generateShown_iff:
  "previewReachable st \<Longrightarrow> generateShown st = (selectedCategories st \<noteq> [])"
  using previewReachable_invariant[of st] by (auto simp add: generateShown_def)

lemma generate_transfers_selection:
  assumes "previewReachable st" and "generateShown st"
    and "navigated (handleGenerateDesign atob st sto) = [Push target]"
  shows "\<exists>cats. target = Route ''/compare'' (Some cats) \<and> cats \<noteq> []
           \<and> split CHR '','' cats = selectedCategories st \<and> selectedCategories st \<noteq> []"
proof -
  from assms(1,2) have ne: "selectedCategories st \<noteq> []" by (simp add: generateShown_iff)
  from previewReachable_invariant[OF assms(1)]
  have ids: "\<And>x. x \<in> set (selectedCategories st) \<Longrightarrow> x \<noteq> [] \<and> CHR '','' \<notin> set x"
    using category_ids by blast
  from assms(3) have "target = Route ''/compare'' (Some (join '','' (selectedCategories st)))"
    by (auto simp add: handleGenerateDesign_def split: option.splits if_splits sum.splits
             dest: prepareImage_ok)
  moreover have "join '','' (selectedCategories st) \<noteq> []"
    using ne ids by (simp add: join_nonempty)
  moreover have "split CHR '','' (join '','' (selectedCategories st)) = selectedCategories st"
    using ne ids by (simp add: split_join)
  ultimately show ?thesis using ne by simp
qed
lemma previewExample_reachable:
  "previewReachable (previewExample ''data:image/png;base64,AAAA'')"
proof -
  let ?sto = "Available [''capturedPhoto'' \<mapsto> ''data:image/png;base64,AAAA'']"
  let ?loaded = "page (loadCapturedPhoto (previewInitial\<lparr>isMounted := True\<rparr>) ?sto)"
  have loaded: "?loaded = \<lparr>imageUrl = Some ''data:image/png;base64,AAAA'',
                            selectedCategories = [], isMounted = True\<rparr>"
    by (simp add: loadCapturedPhoto_def previewInitial_def getItem_def removeItem_def truthy_def)
  have "previewReachable ?loaded"
    by (rule previewReachable.effect, rule previewReachable.mount, rule previewReachable.start)
  moreover have "categoriesShown ?loaded"
    by (simp add: loaded categoriesShown_def truthy_def)
  moreover have "''floor'' \<in> set (map cat_id designCategories)"
    by (simp add: designCategories_def)
  ultimately have "previewReachable (toggleCategory ''floor'' ?loaded)"
    by (rule previewReachable.click)
  moreover have "toggleCategory ''floor'' ?loaded = previewExample ''data:image/png;base64,AAAA''"
    by (simp add: loaded toggleCategory_def toggle_def previewExample_def)
  ultimately show ?thesis by simp
qed

text \<open>
  Claim C7. In every state the preview page can reach, the generate button is rendered
  exactly when the selection is not empty. Whenever the button is there and its handler
  goes on to the comparison screen, the route carries a non-empty \<open>categories\<close> value
  that splits at the commas into the selection, which is not empty.
\<close>

theorem generate_invocable_iff_selection_nonempty:
  assumes "previewReachable st"
  shows "generateShown st = (selectedCategories st \<noteq> [])
         \<and> (\<forall>atob sto target.
               generateShown st \<and> navigated (handleGenerateDesign atob st sto) = [Push target] \<longrightarrow>
               (\<exists>cats. target = Route ''/compare'' (Some cats) \<and> cats \<noteq> []
                  \<and> split CHR '','' cats = selectedCategories st \<and> selectedCategories st \<noteq> []))"
  using generateShown_iff[OF assms] generate_transfers_selection[OF assms]
  by blast

theorem generate_invocable_witness:
  "previewReachable previewInitial
   \<and> \<not> generateShown previewInitial
   \<and> selectedCategories previewInitial = []
   \<and> previewReachable (previewExample ''data:image/png;base64,AAAA'')
   \<and> generateShown (previewExample ''data:image/png;base64,AAAA'')
   \<and> selectedCategories (previewExample ''data:image/png;base64,AAAA'') = [''floor'']
   \<and> navigated (handleGenerateDesign atobExample (previewExample ''data:image/png;base64,AAAA'')
        (Available Map.empty)) = [Push (Route ''/compare'' (Some ''floor''))]
   \<and> split CHR '','' ''floor'' = [''floor'']"
proof -
  have sel: "selectedCategories (previewExample ''data:image/png;base64,AAAA'') = [''floor'']"
    by (simp add: previewExample_def)
  have nav: "navigated (handleGenerateDesign atobExample (previewExample ''data:image/png;base64,AAAA'')
               (Available Map.empty)) = [Push (Route ''/compare'' (Some ''floor''))]"
    by (simp add: handleGenerateDesign_example)
  have ini: "selectedCategories previewInitial = []"
    by (simp add: previewInitial_def)
  show ?thesis
    using generate_invocable_iff_selection_nonempty[OF previewReachable.start]
          generate_invocable_iff_selection_nonempty[OF previewExample_reachable]
          previewReachable.start previewExample_reachable sel nav ini
    by simp
qed

section \<open>Properties of the design generation client\<close>

lemma buildRequest_without_tile:
  "dataURLtoFile atob originalImage ''original.jpg'' = Inr originalFile \<Longrightarrow>
   buildRequest atob originalImage None =
     Inr \<lparr>request_url = ''http://localhost:8000/tiles/generate-random/'',
          request_method = ''POST'', request_files = [originalFile]\<rparr>"
  by (simp add: buildRequest_def API_BASE_URL_def)

lemma dataURLtoFile_nonempty: "dataURLtoFile atob dataUrl filename = Inr f \<Longrightarrow> dataUrl \<noteq> []"
  by (auto simp add: dataURLtoFile_def startsWith_def)

lemma buildRequest_with_tile:
  "dataURLtoFile atob originalImage ''original.jpg'' = Inr originalFile \<Longrightarrow>
   dataURLtoFile atob tile ''tile.jpg'' = Inr tileFile \<Longrightarrow>
   buildRequest atob originalImage (Some tile) =
     Inr \<lparr>request_url = ''http://localhost:8000/tiles/generate/'',
          request_method = ''POST'', request_files = [originalFile, tileFile]\<rparr>"
  using dataURLtoFile_nonempty[of atob tile "''tile.jpg''" tileFile]
  by (simp add: buildRequest_def API_BASE_URL_def)

lemma readResponse_failure:
  "\<not> ok r \<Longrightarrow> body r = Inr errorText \<Longrightarrow>
   readResponse (Resolved r) =
     Inl (Error (''Failed to generate design: '' @ toString (status r) @ '' '' @ errorText))"
  by (simp add: readResponse_def)

lemma readResponse_success:
  "ok r \<Longrightarrow> body r = Inr bytes \<Longrightarrow>
   readResponse (Resolved r) = Inr \<lparr>blob_type = contentType r, blob_bytes = bytes\<rparr>"
  by (simp add: readResponse_def)

lemma generateDesigns_sent:
  "buildRequest atob originalImage tileImage = Inr request \<Longrightarrow>
   generateDesigns atob originalImage tileImage answer = ([request], readResponse answer)"
  by (simp add: generateDesigns_def)

lemma generateDesigns_not_sent:
  "dataURLtoFile atob originalImage ''original.jpg'' = Inl e \<Longrightarrow>
   generateDesigns atob originalImage tileImage answer = ([], Inl e)"
  by (simp add: generateDesigns_def buildRequest_def)

lemma dataURLtoFile_example:
  "dataURLtoFile atobExample ''data:image/png;base64,AAAA'' name =
     Inr \<lparr>file_name = name, file_type = ''image/png'', file_bytes = ''abc''\<rparr>"
  by (simp add: dataURLtoFile_def startsWith_def element_def atobExample_def truthy_def
                lineTerminator_def)

text \<open>
  Claim C6. For a source image, and a style tile if one is given, that are base64 data
  URLs which \<open>dataURLtoFile\<close> accepts, \<open>generateDesigns\<close> sends exactly one request, a POST:
  to \<open>/tiles/generate/\<close> with the two files when a tile is given, and to
  \<open>/tiles/generate-random/\<close> with the one file when none is. A response whose status is
  not between 200 and 299 makes it fail with an error whose message carries the status
  and the body text; a response with such a status makes it return the body as a blob.
\<close>

theorem generate_endpoint_and_response:
  assumes "dataURLtoFile atob originalImage ''original.jpg'' = Inr originalFile"
    and "tileImage = Some tile \<longrightarrow> dataURLtoFile atob tile ''tile.jpg'' = Inr tileFile"
  shows "(tileImage = None \<longrightarrow>
            fst (generateDesigns atob originalImage tileImage answer) =
              [\<lparr>request_url = ''http://localhost:8000/tiles/generate-random/'',
                request_method = ''POST'', request_files = [originalFile]\<rparr>])
         \<and> (tileImage = Some tile \<longrightarrow>
            fst (generateDesigns atob originalImage tileImage answer) =
              [\<lparr>request_url = ''http://localhost:8000/tiles/generate/'',
                request_method = ''POST'', request_files = [originalFile, tileFile]\<rparr>])
         \<and> (tileImage = None \<or> tileImage = Some tile \<longrightarrow>
            (\<forall>r errorText. answer = Resolved r \<and> \<not> (200 \<le> status r \<and> status r \<le> 299)
                \<and> body r = Inr errorText \<longrightarrow>
              snd (generateDesigns atob originalImage tileImage answer) =
                Inl (Error (''Failed to generate design: '' @ toString (status r) @ '' '' @ errorText)))
            \<and> (\<forall>r bytes. answer = Resolved r \<and> 200 \<le> status r \<and> status r \<le> 299
                \<and> body r = Inr bytes \<longrightarrow>
              snd (generateDesigns atob originalImage tileImage answer) =
                Inr \<lparr>blob_type = contentType r, blob_bytes = bytes\<rparr>))"
proof -
  have none: "tileImage = None \<Longrightarrow>
      generateDesigns atob originalImage tileImage answer =
        ([\<lparr>request_url = ''http://localhost:8000/tiles/generate-random/'',
           request_method = ''POST'', request_files = [originalFile]\<rparr>], readResponse answer)"
    using buildRequest_without_tile[OF assms(1)] by (simp add: generateDesigns_sent)
  have some: "tileImage = Some tile \<Longrightarrow>
      generateDesigns atob originalImage tileImage answer =
        ([\<lparr>request_url = ''http://localhost:8000/tiles/generate/'',
           request_method = ''POST'', request_files = [originalFile, tileFile]\<rparr>], readResponse answer)"
    using buildRequest_with_tile[OF assms(1)] assms(2) by (simp add: generateDesigns_sent)
  show ?thesis
    using none some readResponse_failure readResponse_success
    by (auto simp add: ok_def)
qed

theorem generate_endpoint_witness:
  "dataURLtoFile atobExample ''data:image/png;base64,AAAA'' ''original.jpg'' =
     Inr \<lparr>file_name = ''original.jpg'', file_type = ''image/png'', file_bytes = ''abc''\<rparr>
   \<and> generateDesigns atobExample ''data:image/png;base64,AAAA'' None
        (Resolved \<lparr>status = 500, contentType = ''text/plain'', body = Inr ''model unavailable''\<rparr>)
      = ([\<lparr>request_url = ''http://localhost:8000/tiles/generate-random/'', request_method = ''POST'',
           request_files = [\<lparr>file_name = ''original.jpg'', file_type = ''image/png'',
                              file_bytes = ''abc''\<rparr>]\<rparr>],
         Inl (Error ''Failed to generate design: 500 model unavailable''))
   \<and> generateDesigns atobExample ''data:image/png;base64,AAAA'' (Some ''data:image/png;base64,AAAA'')
        (Resolved \<lparr>status = 200, contentType = ''image/png'', body = Inr ''xyz''\<rparr>)
      = ([\<lparr>request_url = ''http://localhost:8000/tiles/generate/'', request_method = ''POST'',
           request_files = [\<lparr>file_name = ''original.jpg'', file_type = ''image/png'',
                              file_bytes = ''abc''\<rparr>,
                            \<lparr>file_name = ''tile.jpg'', file_type = ''image/png'',
                              file_bytes = ''abc''\<rparr>]\<rparr>],
         Inr \<lparr>blob_type = ''image/png'', blob_bytes = ''xyz''\<rparr>)"
proof -
  let ?img = "''data:image/png;base64,AAAA''"
  let ?bad = "Resolved \<lparr>status = 500, contentType = ''text/plain'', body = Inr ''model unavailable''\<rparr>"
  let ?good = "Resolved \<lparr>status = 200, contentType = ''image/png'', body = Inr ''xyz''\<rparr>"
  have src: "dataURLtoFile atobExample ?img ''original.jpg'' =
      Inr \<lparr>file_name = ''original.jpg'', file_type = ''image/png'', file_bytes = ''abc''\<rparr>"
    by (rule dataURLtoFile_example)
  have t1: "(None :: string option) = Some ?img \<longrightarrow> dataURLtoFile atobExample ?img ''tile.jpg'' =
      Inr \<lparr>file_name = ''tile.jpg'', file_type = ''image/png'', file_bytes = ''abc''\<rparr>"
    by simp
  have t2: "Some ?img = Some ?img \<longrightarrow> dataURLtoFile atobExample ?img ''tile.jpg'' =
      Inr \<lparr>file_name = ''tile.jpg'', file_type = ''image/png'', file_bytes = ''abc''\<rparr>"
    by (simp add: dataURLtoFile_example)
  have str: "toString 500 = ''500''"
    by (simp add: toString.simps digit_def)
  show ?thesis
    using generate_endpoint_and_response[OF src t1, of ?bad]
          generate_endpoint_and_response[OF src t2, of ?good] src str
    by (simp add: prod_eq_iff)
qed

section \<open>Properties of the capture controller\<close>

lemma stopCamera_stops:
  "i < length (streams w) \<Longrightarrow>
   stream (ui (stopCamera (Some i) w)) = None
   \<and> (\<forall>t \<in> set (streams (stopCamera (Some i) w) ! i). readyState t = Ended)"
  by (simp add: stopCamera_def stopTracks_def)

lemma capture_releases_camera:
  assumes "stream (ui w) = Some i" and "i < length (streams w)"
    and "videoMounted (ui w)" and "contextAvailable f"
  shows "frozenFrame (ui (capture f w)) = Some (toDataURL f (canvas (capture f w)))
         \<and> stream (ui (capture f w)) = None
         \<and> (\<forall>t \<in> set (streams (capture f w) ! i). readyState t = Ended)
         \<and> canvas (capture f w) =
             captureSize (map_option settings (element (streams w ! i) 0)) (videoWidth f) (videoHeight f)"
  using assms
  by (simp add: capture_def Let_def stopCamera_def stopTracks_def firstVideoTrack_def)

lemma handleFileUpload_releases_camera:
  assumes "i < length (streams w)"
  shows "frozenFrame (ui (handleFileUploadLoaded (Some i) dataUrl w)) = Some dataUrl
         \<and> stream (ui (handleFileUploadLoaded (Some i) dataUrl w)) = None
         \<and> (\<forall>t \<in> set (streams (handleFileUploadLoaded (Some i) dataUrl w) ! i). readyState t = Ended)"
  using assms
  by (simp add: handleFileUploadLoaded_def Let_def stopCamera_def stopTracks_def)

lemma onFileChange_keeps_camera:
  "streams (onFileChangeLoaded dataUrl w) = streams w
   \<and> stream (ui (onFileChangeLoaded dataUrl w)) = stream (ui w)
   \<and> frozenFrame (ui (onFileChangeLoaded dataUrl w)) = Some dataUrl"
  by (simp add: onFileChangeLoaded_def)

lemma capture_after_start:
  "run (cameraInitial True True (Available Map.empty))
     [ClickTakePhoto, CameraGranted rearCamera, PlaySettled,
      ClickCapture frameExample]
   = (cameraInitial True True (Available Map.empty))
       \<lparr>ui := \<lparr>stream = None, blob = None, busy = False, cameraError = None,
               frozenFrame = Some ''data:image/jpeg;base64,AAAA'', showToast = True,
               uploadedImage = None\<rparr>,
        streams := [[\<lparr>readyState = Ended, settings = \<lparr>width = Some 1920, height = Some 1080\<rparr>\<rparr>]],
        canvas := (1920, 1080)\<rparr>"
  by (simp add: run_def cameraInitial_def rearCamera_def overlayShown_def truthy_def
                startCamera_def startCameraGranted_def startCameraFinish_def videoMounted_def
                captureEnabled_def capture_def firstVideoTrack_def element_def captureSize_def
                frameExample_def
                frameWidth_def frameHeight_def getSettings_def orNumber_def outputSize_def
                maxDim_def stopCamera_def stopTracks_def Let_def)

text \<open>
  Claim C2, at the input where the code departs from it. The user clicks "Take a Photo"
  and, while \<open>getUserMedia\<close> is pending, "Upload an Image" (the overlay is still shown and
  that button is not disabled); the camera is granted and plays; the user then picks a
  file and the reader loads it. \<open>onFileChange\<close> sets the frozen frame and never calls
  \<open>stopCamera\<close>: the frame is frozen while the track of the stream the component holds is
  still live.
\<close>

theorem file_picked_while_camera_starts_keeps_camera_live:
  "run (cameraInitial True True (Available Map.empty))
     [ClickTakePhoto, ClickUploadImage, CameraGranted rearCamera, PlaySettled,
      FilePicked pickedFile, FileLoaded]
   = (cameraInitial True True (Available Map.empty))
       \<lparr>ui := \<lparr>stream = Some 0, blob = Some pickedFile, busy = False, cameraError = None,
               frozenFrame = Some pickedFile, showToast = True, uploadedImage = None\<rparr>,
        streams := [rearCamera]\<rparr>
   \<and> frozen (run (cameraInitial True True (Available Map.empty))
        [ClickTakePhoto, ClickUploadImage, CameraGranted rearCamera, PlaySettled,
         FilePicked pickedFile, FileLoaded])
   \<and> cameraLive (run (cameraInitial True True (Available Map.empty))
        [ClickTakePhoto, ClickUploadImage, CameraGranted rearCamera, PlaySettled,
         FilePicked pickedFile, FileLoaded])"
proof -
  have trace: "run (cameraInitial True True (Available Map.empty))
     [ClickTakePhoto, ClickUploadImage, CameraGranted rearCamera, PlaySettled,
      FilePicked pickedFile, FileLoaded]
   = (cameraInitial True True (Available Map.empty))
       \<lparr>ui := \<lparr>stream = Some 0, blob = Some pickedFile, busy = False, cameraError = None,
               frozenFrame = Some pickedFile, showToast = True, uploadedImage = None\<rparr>,
        streams := [rearCamera]\<rparr>"
    by (simp add: run_def cameraInitial_def rearCamera_def overlayShown_def truthy_def
                  startCamera_def startCameraGranted_def startCameraFinish_def videoMounted_def
                  onFileChange_def onFileChangeLoaded_def Let_def)
  show ?thesis
    unfolding trace
    by (simp add: frozen_def cameraLive_def truthy_def pickedFile_def rearCamera_def)
qed

section \<open>Properties of the session transfer\<close>

lemma loadDesignPhoto_malformed:
  assumes "mounted st" and "cats \<noteq> []"
    and "getItem sto ''designPhoto'' = Inr (Some photo)"
    and "photo \<noteq> []" and "\<not> startsWith ''data:image/'' photo"
  shows "loadDesignPhoto st (Some cats) sto =
           photoFailed st sto (Error ''Invalid image format'')"
  using assms by (simp add: loadDesignPhoto_def)

text \<open>
  Claim C10. When the comparison screen is mounted with a \<open>categories\<close> parameter and the
  storage holds under \<open>designPhoto\<close> a non-empty value that does not start with
  \<open>data:image/\<close>, the effect replaces the route by the entry point and leaves the storage
  exactly as it was: the value is still there, a second run of the effect finds it
  again, and the photo of the page stays unset.
\<close>

theorem malformed_design_photo_is_not_cleared:
  assumes "mounted st" and "cats \<noteq> []"
    and "getItem sto ''designPhoto'' = Inr (Some photo)"
    and "photo \<noteq> []" and "\<not> startsWith ''data:image/'' photo"
  shows "navigated (loadDesignPhoto st (Some cats) sto) = [Replace entryPoint]
         \<and> session (loadDesignPhoto st (Some cats) sto) = sto
         \<and> getItem (session (loadDesignPhoto st (Some cats) sto)) ''designPhoto'' = Inr (Some photo)
         \<and> originalPhoto (page (loadDesignPhoto st (Some cats) sto)) = originalPhoto st
         \<and> errorMessage (page (loadDesignPhoto st (Some cats) sto)) = Some ''Failed to process photo data''
         \<and> loadDesignPhoto (page (loadDesignPhoto st (Some cats) sto)) (Some cats)
              (session (loadDesignPhoto st (Some cats) sto))
            = loadDesignPhoto st (Some cats) sto"
proof -
  have first: "loadDesignPhoto st (Some cats) sto = photoFailed st sto (Error ''Invalid image format'')"
    using assms by (rule loadDesignPhoto_malformed)
  have m: "mounted (st\<lparr>errorMessage := Some ''Failed to process photo data''\<rparr>)"
    using assms(1) by simp
  have second: "loadDesignPhoto (st\<lparr>errorMessage := Some ''Failed to process photo data''\<rparr>) (Some cats) sto
      = photoFailed (st\<lparr>errorMessage := Some ''Failed to process photo data''\<rparr>) sto
          (Error ''Invalid image format'')"
    using m assms(2-5) by (rule loadDesignPhoto_malformed)
  show ?thesis
    using assms(3) by (simp add: first second photoFailed_def)
qed

theorem malformed_design_photo_witness:
  "mounted (compareInitial\<lparr>mounted := True\<rparr>) \<and> ''floor'' \<noteq> []
   \<and> getItem (Available [''designPhoto'' \<mapsto> ''hello'']) ''designPhoto'' = Inr (Some ''hello'')
   \<and> ''hello'' \<noteq> [] \<and> \<not> startsWith ''data:image/'' ''hello''
   \<and> navigated (loadDesignPhoto (compareInitial\<lparr>mounted := True\<rparr>) (Some ''floor'')
        (Available [''designPhoto'' \<mapsto> ''hello''])) = [Replace entryPoint]
   \<and> session (loadDesignPhoto (compareInitial\<lparr>mounted := True\<rparr>) (Some ''floor'')
        (Available [''designPhoto'' \<mapsto> ''hello''])) = Available [''designPhoto'' \<mapsto> ''hello'']"
proof -
  have a: "mounted (compareInitial\<lparr>mounted := True\<rparr>)" by simp
  have b: "''floor'' \<noteq> []" by simp
  have c: "getItem (Available [''designPhoto'' \<mapsto> ''hello'']) ''designPhoto'' = Inr (Some ''hello'')"
    by (simp add: getItem_def)
  have d: "''hello'' \<noteq> []" by simp
  have e: "\<not> startsWith ''data:image/'' ''hello''" by (simp add: startsWith_def)
  show ?thesis
    using malformed_design_photo_is_not_cleared[OF a b c d e] a b c d e
    by simp
qed

lemma captured_photo_take:
  assumes "isMounted st" and "m ''capturedPhoto'' = Some photo" and "photo \<noteq> []"
  shows "loadCapturedPhoto st (Available m) =
           \<lparr>page = st\<lparr>imageUrl := Some photo\<rparr>, session = Available (m(''capturedPhoto'' := None)),
            navigated = [], logged = []\<rparr>"
  using assms by (simp add: loadCapturedPhoto_def getItem_def removeItem_def truthy_def)

lemma captured_photo_absent:
  assumes "isMounted st"
    and "getItem sto ''capturedPhoto'' = Inr None \<or> getItem sto ''capturedPhoto'' = Inr (Some [])
         \<or> getItem sto ''capturedPhoto'' = Inl e"
  shows "navigated (loadCapturedPhoto st sto) = [Replace entryPoint]
         \<and> page (loadCapturedPhoto st sto) = st \<and> session (loadCapturedPhoto st sto) = sto"
  using assms by (auto simp add: loadCapturedPhoto_def truthy_def)

lemma design_photo_take:
  assumes "mounted cs" and "cats \<noteq> []" and "m ''designPhoto'' = Some photo"
    and "startsWith ''data:image/'' photo"
  shows "loadDesignPhoto cs (Some cats) (Available m) =
           \<lparr>page = cs\<lparr>originalPhoto := Some photo, chosenCategories := split CHR '','' cats\<rparr>,
            session = Available (m(''designPhoto'' := None)), navigated = [], logged = []\<rparr>"
proof -
  from assms(4) have "photo \<noteq> []" by (auto simp add: startsWith_def)
  with assms show ?thesis
    by (simp add: loadDesignPhoto_def getItem_def removeItem_def Let_def)
qed

lemma design_photo_absent:
  assumes "mounted cs" and "cats \<noteq> []"
    and "getItem sto ''designPhoto'' = Inr None \<or> getItem sto ''designPhoto'' = Inr (Some [])
         \<or> getItem sto ''designPhoto'' = Inl e"
  shows "\<exists>cause. loadDesignPhoto cs (Some cats) sto = photoFailed cs sto cause"
  using assms by (auto simp add: loadDesignPhoto_def)

lemma photoFailed_shown:
  "navigated (photoFailed cs sto cause) = [Replace entryPoint]
   \<and> session (photoFailed cs sto cause) = sto
   \<and> originalPhoto (page (photoFailed cs sto cause)) = originalPhoto cs
   \<and> errorMessage (page (photoFailed cs sto cause)) = Some ''Failed to process photo data''
   \<and> (designs cs = None \<and> \<not> isLoading cs \<longrightarrow>
        render (page (photoFailed cs sto cause)) = RetryView ''Failed to process photo data'')"
  by (simp add: photoFailed_def render_def)

lemma handleNext_puts:
  assumes "frozenFrame c = Some stored" and "navigated (handleNext c sto) \<noteq> []"
  shows "stored \<noteq> [] \<and> (\<exists>m. sto = Available m
           \<and> session (handleNext c sto) = Available (m(''capturedPhoto'' \<mapsto> stored)))"
  using assms
  by (auto simp add: handleNext_def setItem_def split: if_splits storage.splits)

lemma handleGenerateDesign_puts:
  assumes "imageUrl pv = Some stored" and "navigated (handleGenerateDesign atob pv sto) \<noteq> []"
  shows "startsWith ''data:image/'' stored \<and> (\<exists>m. sto = Available m
           \<and> session (handleGenerateDesign atob pv sto) = Available (m(''designPhoto'' \<mapsto> stored)))"
proof -
  from assms obtain sto' target where
    prep: "prepareImage atob stored (selectedCategories pv) sto = Inr (sto', target)"
    and sess: "session (handleGenerateDesign atob pv sto) = sto'"
    by (auto simp add: handleGenerateDesign_def split: if_splits sum.splits)
  from prepareImage_ok[OF prep]
  have ok: "startsWith ''data:image/'' stored" "setItem sto ''designPhoto'' stored = Inr sto'"
    by simp_all
  from ok(2) obtain m where "sto = Available m" "sto' = Available (m(''designPhoto'' \<mapsto> stored))"
    by (auto simp add: setItem_def split: storage.splits)
  with ok(1) sess show ?thesis by simp
qed

text \<open>
  Claim C5, as the code has it. The two mailboxes of the flow are \<open>capturedPhoto\<close>, taken
  by the effect of the preview page, and \<open>designPhoto\<close>, taken by the effect of the
  comparison screen. For every value the taking screen accepts (under \<open>capturedPhoto\<close>
  any non-empty value, under \<open>designPhoto\<close> any value that starts with \<open>data:image/\<close>) a
  put followed by the take brings the value into the state of the screen and removes the
  key without redirecting, and the same take run once more on the storage it left finds
  nothing. These are all the values \<open>handleNext\<close> and \<open>handleGenerateDesign\<close> put.
  Whenever a take finds nothing (no value, the empty value, or a storage that throws)
  the screen replaces the route by the entry point and takes no photo: the preview page
  is left as it was, and the comparison screen sets its error message and, having no
  designs, renders the error with the Retry button.
\<close>

theorem session_transfer_takes_accepted_values_once:
  assumes "isMounted st" and "mounted cs" and "categories \<noteq> []"
  shows "(photo \<noteq> [] \<longrightarrow>
            setItem (Available m) ''capturedPhoto'' photo
              = Inr (Available (m(''capturedPhoto'' \<mapsto> photo)))
            \<and> page (loadCapturedPhoto st (Available (m(''capturedPhoto'' \<mapsto> photo))))
                = st\<lparr>imageUrl := Some photo\<rparr>
            \<and> navigated (loadCapturedPhoto st (Available (m(''capturedPhoto'' \<mapsto> photo)))) = []
            \<and> getItem (session (loadCapturedPhoto st (Available (m(''capturedPhoto'' \<mapsto> photo)))))
                 ''capturedPhoto'' = Inr None
            \<and> navigated (loadCapturedPhoto st
                 (session (loadCapturedPhoto st (Available (m(''capturedPhoto'' \<mapsto> photo))))))
               = [Replace entryPoint]
            \<and> page (loadCapturedPhoto st
                 (session (loadCapturedPhoto st (Available (m(''capturedPhoto'' \<mapsto> photo)))))) = st)
         \<and> (startsWith ''data:image/'' photo \<longrightarrow>
            setItem (Available m) ''designPhoto'' photo
              = Inr (Available (m(''designPhoto'' \<mapsto> photo)))
            \<and> originalPhoto (page (loadDesignPhoto cs (Some categories)
                 (Available (m(''designPhoto'' \<mapsto> photo))))) = Some photo
            \<and> navigated (loadDesignPhoto cs (Some categories)
                 (Available (m(''designPhoto'' \<mapsto> photo)))) = []
            \<and> getItem (session (loadDesignPhoto cs (Some categories)
                 (Available (m(''designPhoto'' \<mapsto> photo))))) ''designPhoto'' = Inr None
            \<and> navigated (loadDesignPhoto cs (Some categories)
                 (session (loadDesignPhoto cs (Some categories)
                    (Available (m(''designPhoto'' \<mapsto> photo)))))) = [Replace entryPoint]
            \<and> originalPhoto (page (loadDesignPhoto cs (Some categories)
                 (session (loadDesignPhoto cs (Some categories)
                    (Available (m(''designPhoto'' \<mapsto> photo))))))) = originalPhoto cs)
         \<and> (frozenFrame c = Some stored \<and> navigated (handleNext c sto) \<noteq> [] \<longrightarrow>
            stored \<noteq> []
            \<and> (\<exists>m'. sto = Available m'
                  \<and> session (handleNext c sto) = Available (m'(''capturedPhoto'' \<mapsto> stored))))
         \<and> (imageUrl pv = Some stored \<and> navigated (handleGenerateDesign atob pv sto) \<noteq> [] \<longrightarrow>
            startsWith ''data:image/'' stored
            \<and> (\<exists>m'. sto = Available m'
                  \<and> session (handleGenerateDesign atob pv sto)
                      = Available (m'(''designPhoto'' \<mapsto> stored))))
         \<and> (getItem sto' ''capturedPhoto'' = Inr None \<or> getItem sto' ''capturedPhoto'' = Inr (Some [])
             \<or> getItem sto' ''capturedPhoto'' = Inl e \<longrightarrow>
            navigated (loadCapturedPhoto st sto') = [Replace entryPoint]
            \<and> page (loadCapturedPhoto st sto') = st
            \<and> session (loadCapturedPhoto st sto') = sto')
         \<and> (getItem sto' ''designPhoto'' = Inr None \<or> getItem sto' ''designPhoto'' = Inr (Some [])
             \<or> getItem sto' ''designPhoto'' = Inl e \<longrightarrow>
            navigated (loadDesignPhoto cs (Some categories) sto') = [Replace entryPoint]
            \<and> session (loadDesignPhoto cs (Some categories) sto') = sto'
            \<and> originalPhoto (page (loadDesignPhoto cs (Some categories) sto')) = originalPhoto cs
            \<and> errorMessage (page (loadDesignPhoto cs (Some categories) sto'))
                = Some ''Failed to process photo data''
            \<and> (designs cs = None \<and> \<not> isLoading cs \<longrightarrow>
                 render (page (loadDesignPhoto cs (Some categories) sto'))
                   = RetryView ''Failed to process photo data''))"
proof (intro conjI impI)
  assume a: "photo \<noteq> []"
  let ?s1 = "Available (m(''capturedPhoto'' \<mapsto> photo))"
  have take: "loadCapturedPhoto st ?s1 =
      \<lparr>page = st\<lparr>imageUrl := Some photo\<rparr>,
       session = Available ((m(''capturedPhoto'' \<mapsto> photo))(''capturedPhoto'' := None)),
       navigated = [], logged = []\<rparr>"
    using a assms(1) by (simp add: captured_photo_take)
  have again: "navigated (loadCapturedPhoto st
        (Available ((m(''capturedPhoto'' \<mapsto> photo))(''capturedPhoto'' := None)))) = [Replace entryPoint]
      \<and> page (loadCapturedPhoto st
        (Available ((m(''capturedPhoto'' \<mapsto> photo))(''capturedPhoto'' := None)))) = st"
    using captured_photo_absent[OF assms(1), of _ e] by (simp add: getItem_def)
  show "setItem (Available m) ''capturedPhoto'' photo = Inr ?s1"
    by (simp add: setItem_def)
  show "page (loadCapturedPhoto st ?s1) = st\<lparr>imageUrl := Some photo\<rparr>"
    by (simp add: take)
  show "navigated (loadCapturedPhoto st ?s1) = []"
    by (simp add: take)
  show "getItem (session (loadCapturedPhoto st ?s1)) ''capturedPhoto'' = Inr None"
    by (simp add: take getItem_def)
  show "navigated (loadCapturedPhoto st (session (loadCapturedPhoto st ?s1))) = [Replace entryPoint]"
    using again by (simp add: take)
  show "page (loadCapturedPhoto st (session (loadCapturedPhoto st ?s1))) = st"
    using again by (simp add: take)
next
  assume b: "startsWith ''data:image/'' photo"
  let ?s1 = "Available (m(''designPhoto'' \<mapsto> photo))"
  have take: "loadDesignPhoto cs (Some categories) ?s1 =
      \<lparr>page = cs\<lparr>originalPhoto := Some photo, chosenCategories := split CHR '','' categories\<rparr>,
       session = Available (m(''designPhoto'' := None)),
       navigated = [], logged = []\<rparr>"
    using assms(2,3) b by (simp add: design_photo_take)
  from design_photo_absent[OF assms(2,3), of
      "Available (m(''designPhoto'' := None))" e]
  obtain cause where again: "loadDesignPhoto cs (Some categories)
        (Available (m(''designPhoto'' := None)))
      = photoFailed cs (Available (m(''designPhoto'' := None))) cause"
    by (auto simp add: getItem_def)
  show "setItem (Available m) ''designPhoto'' photo = Inr ?s1"
    by (simp add: setItem_def)
  show "originalPhoto (page (loadDesignPhoto cs (Some categories) ?s1)) = Some photo"
    by (simp add: take)
  show "navigated (loadDesignPhoto cs (Some categories) ?s1) = []"
    by (simp add: take)
  show "getItem (session (loadDesignPhoto cs (Some categories) ?s1)) ''designPhoto'' = Inr None"
    by (simp add: take getItem_def)
  show "navigated (loadDesignPhoto cs (Some categories)
          (session (loadDesignPhoto cs (Some categories) ?s1))) = [Replace entryPoint]"
    by (simp add: take again photoFailed_shown)
  show "originalPhoto (page (loadDesignPhoto cs (Some categories)
          (session (loadDesignPhoto cs (Some categories) ?s1)))) = originalPhoto cs"
    by (simp add: take again photoFailed_shown)
next
  assume "frozenFrame c = Some stored \<and> navigated (handleNext c sto) \<noteq> []"
  then have "frozenFrame c = Some stored" and "navigated (handleNext c sto) \<noteq> []" by simp_all
  from handleNext_puts[OF this]
  show "stored \<noteq> []"
    and "\<exists>m'. sto = Available m'
           \<and> session (handleNext c sto) = Available (m'(''capturedPhoto'' \<mapsto> stored))"
    by simp_all
next
  assume "imageUrl pv = Some stored \<and> navigated (handleGenerateDesign atob pv sto) \<noteq> []"
  then have "imageUrl pv = Some stored" and "navigated (handleGenerateDesign atob pv sto) \<noteq> []"
    by simp_all
  from handleGenerateDesign_puts[OF this]
  show "startsWith ''data:image/'' stored"
    and "\<exists>m'. sto = Available m'
           \<and> session (handleGenerateDesign atob pv sto) = Available (m'(''designPhoto'' \<mapsto> stored))"
    by simp_all
next
  assume "getItem sto' ''capturedPhoto'' = Inr None \<or> getItem sto' ''capturedPhoto'' = Inr (Some [])
          \<or> getItem sto' ''capturedPhoto'' = Inl e"
  from captured_photo_absent[OF assms(1) this]
  show "navigated (loadCapturedPhoto st sto') = [Replace entryPoint]"
    and "page (loadCapturedPhoto st sto') = st"
    and "session (loadCapturedPhoto st sto') = sto'"
    by simp_all
next
  assume "getItem sto' ''designPhoto'' = Inr None \<or> getItem sto' ''designPhoto'' = Inr (Some [])
          \<or> getItem sto' ''designPhoto'' = Inl e"
  from design_photo_absent[OF assms(2,3) this]
  obtain cause where f: "loadDesignPhoto cs (Some categories) sto' = photoFailed cs sto' cause"
    by blast
  show "navigated (loadDesignPhoto cs (Some categories) sto') = [Replace entryPoint]"
    and "session (loadDesignPhoto cs (Some categories) sto') = sto'"
    and "originalPhoto (page (loadDesignPhoto cs (Some categories) sto')) = originalPhoto cs"
    and "errorMessage (page (loadDesignPhoto cs (Some categories) sto'))
           = Some ''Failed to process photo data''"
    by (simp_all add: f photoFailed_shown)
  show "render (page (loadDesignPhoto cs (Some categories) sto'))
          = RetryView ''Failed to process photo data''"
    if "designs cs = None \<and> \<not> isLoading cs"
    using that photoFailed_shown[of cs sto' cause] by (simp add: f)
qed

theorem session_transfer_takes_accepted_values_witness:
  "isMounted previewMounted \<and> mounted compareMounted \<and> ''floor'' \<noteq> []
   \<and> pickedFile \<noteq> [] \<and> startsWith ''data:image/'' pickedFile
   \<and> page (loadCapturedPhoto previewMounted (Available [''capturedPhoto'' \<mapsto> pickedFile]))
       = previewMounted\<lparr>imageUrl := Some pickedFile\<rparr>
   \<and> getItem (session (loadCapturedPhoto previewMounted
         (Available [''capturedPhoto'' \<mapsto> pickedFile]))) ''capturedPhoto'' = Inr None
   \<and> originalPhoto (page (loadDesignPhoto compareMounted (Some ''floor'')
         (Available [''designPhoto'' \<mapsto> pickedFile]))) = Some pickedFile
   \<and> getItem (session (loadDesignPhoto compareMounted (Some ''floor'')
         (Available [''designPhoto'' \<mapsto> pickedFile]))) ''designPhoto'' = Inr None
   \<and> navigated (loadDesignPhoto compareMounted (Some ''floor'')
         (session (loadDesignPhoto compareMounted (Some ''floor'')
            (Available [''designPhoto'' \<mapsto> pickedFile])))) = [Replace entryPoint]
   \<and> frozenFrame frozenExample = Some pickedFile
   \<and> navigated (handleNext frozenExample (Available Map.empty)) \<noteq> []
   \<and> session (handleNext frozenExample (Available Map.empty))
       = Available [''capturedPhoto'' \<mapsto> pickedFile]
   \<and> imageUrl (previewExample pickedFile) = Some pickedFile
   \<and> navigated (handleGenerateDesign atobExample (previewExample pickedFile) (Available Map.empty))
       \<noteq> []
   \<and> session (handleGenerateDesign atobExample (previewExample pickedFile) (Available Map.empty))
       = Available [''designPhoto'' \<mapsto> pickedFile]
   \<and> getItem Unavailable ''capturedPhoto'' = Inl storageError
   \<and> navigated (loadCapturedPhoto previewMounted Unavailable) = [Replace entryPoint]
   \<and> page (loadCapturedPhoto previewMounted Unavailable) = previewMounted
   \<and> getItem Unavailable ''designPhoto'' = Inl storageError
   \<and> designs compareMounted = None \<and> \<not> isLoading compareMounted
   \<and> navigated (loadDesignPhoto compareMounted (Some ''floor'') Unavailable) = [Replace entryPoint]
   \<and> originalPhoto (page (loadDesignPhoto compareMounted (Some ''floor'') Unavailable)) = None
   \<and> render (page (loadDesignPhoto compareMounted (Some ''floor'') Unavailable))
       = RetryView ''Failed to process photo data''"
proof -
  have a: "isMounted previewMounted" by (simp add: previewMounted_def)
  have b: "mounted compareMounted" by (simp add: compareMounted_def)
  have c: "''floor'' \<noteq> []" by simp
  have d: "pickedFile \<noteq> [] \<and> startsWith ''data:image/'' pickedFile"
    by (simp add: pickedFile_def startsWith_def)
  have f: "frozenFrame frozenExample = Some pickedFile
           \<and> navigated (handleNext frozenExample (Available Map.empty)) \<noteq> []"
    by (simp add: frozenExample_def pickedFile_def handleNext_def setItem_def)
  have g: "imageUrl (previewExample pickedFile) = Some pickedFile
           \<and> navigated (handleGenerateDesign atobExample (previewExample pickedFile)
                 (Available Map.empty)) \<noteq> []"
    by (simp add: pickedFile_def handleGenerateDesign_example) (simp add: previewExample_def)
  have h: "getItem Unavailable ''capturedPhoto'' = Inl storageError
           \<and> getItem Unavailable ''designPhoto'' = Inl storageError"
    by (simp add: getItem_def)
  have i: "designs compareMounted = None \<and> \<not> isLoading compareMounted
           \<and> originalPhoto compareMounted = None"
    by (simp add: compareMounted_def compareInitial_def)
  show ?thesis
    using session_transfer_takes_accepted_values_once[OF a b c, of pickedFile Map.empty
            frozenExample pickedFile "Available Map.empty" "previewExample pickedFile" atobExample
            Unavailable storageError]
          a b c d f g h i
    by auto
qed

text \<open>
  The claim as written is for every key and value. A value the taking screen does not
  accept is neither returned nor removed: \<open>v\<close> put under \<open>designPhoto\<close>, and the empty
  string put under \<open>capturedPhoto\<close>, are still in the storage after the take, and the
  screen has taken nothing.
\<close>

theorem take_once_keeps_values_it_rejects:
  "setItem (Available Map.empty) ''designPhoto'' ''v'' = Inr (Available [''designPhoto'' \<mapsto> ''v''])
   \<and> originalPhoto (page (loadDesignPhoto compareMounted (Some ''floor'')
         (Available [''designPhoto'' \<mapsto> ''v'']))) = None
   \<and> getItem (session (loadDesignPhoto compareMounted (Some ''floor'')
         (Available [''designPhoto'' \<mapsto> ''v'']))) ''designPhoto'' = Inr (Some ''v'')
   \<and> \<not> (originalPhoto (page (loadDesignPhoto compareMounted (Some ''floor'')
            (Available [''designPhoto'' \<mapsto> ''v'']))) = Some ''v''
         \<and> getItem (session (loadDesignPhoto compareMounted (Some ''floor'')
            (Available [''designPhoto'' \<mapsto> ''v'']))) ''designPhoto'' = Inr None)
   \<and> setItem (Available Map.empty) ''capturedPhoto'' [] = Inr (Available [''capturedPhoto'' \<mapsto> []])
   \<and> imageUrl (page (loadCapturedPhoto previewMounted (Available [''capturedPhoto'' \<mapsto> []]))) = None
   \<and> getItem (session (loadCapturedPhoto previewMounted (Available [''capturedPhoto'' \<mapsto> []])))
         ''capturedPhoto'' = Inr (Some [])"
  by (simp add: setItem_def getItem_def loadDesignPhoto_def loadCapturedPhoto_def photoFailed_def
                compareMounted_def compareInitial_def previewMounted_def previewInitial_def
                startsWith_def truthy_def)

section \<open>Properties of the comparison screen\<close>

lemma generateDesigns_random:
  "dataURLtoFile atob photo ''original.jpg'' = Inr originalFile \<Longrightarrow>
   generateDesigns atob photo None answer = ([randomRequest originalFile], readResponse answer)"
  using buildRequest_without_tile[of atob photo originalFile]
  by (simp add: generateDesigns_sent randomRequest_def)

lemma promiseAll_both: "promiseAll order (Inr a) (Inr b) = Inr (a, b)"
  by (simp add: promiseAll_def)

lemma promiseAll_rejects:
  "p = Inl e1 \<or> q = Inl e2 \<Longrightarrow>
   \<exists>e. promiseAll order p q = Inl e \<and> (p = Inl e \<or> q = Inl e)"
  by (cases p; cases q; cases order) (auto simp add: promiseAll_def)

lemma initial_generation_unfolded:
  assumes "originalPhoto st = Some photo"
    and "dataURLtoFile (decoder env) photo ''original.jpg'' = Inr originalFile"
  shows "generateInitialDesigns env st =
     (case promiseAll (requestOrder env) (readResponse (firstAnswer env))
             (readResponse (secondAnswer env)) of
        Inl e \<Rightarrow> generationFailed st [randomRequest originalFile, randomRequest originalFile] e
      | Inr (design1Blob, design2Blob) \<Rightarrow>
          (case promiseAll (conversionOrder env) (blobToDataURL (reader env) design1Blob)
                  (blobToDataURL (reader env) design2Blob) of
             Inl e \<Rightarrow> generationFailed st [randomRequest originalFile, randomRequest originalFile] e
           | Inr (design1Url, design2Url) \<Rightarrow>
               \<lparr>after = (generating st)
                  \<lparr>designs := Some (\<lparr>design_id = ''1'', design_imageUrl = design1Url\<rparr>,
                                    \<lparr>design_id = ''2'', design_imageUrl = design2Url\<rparr>),
                   isLoading := False\<rparr>,
                requests = [randomRequest originalFile, randomRequest originalFile],
                errors = []\<rparr>))"
  using assms dataURLtoFile_nonempty[OF assms(2)]
  by (simp add: generateInitialDesigns_def generateDesigns_random Let_def
             split: sum.splits prod.splits)

lemma initial_generation_requests:
  assumes "originalPhoto st = Some photo"
    and "dataURLtoFile (decoder env) photo ''original.jpg'' = Inr originalFile"
  shows "requests (generateInitialDesigns env st) =
           [randomRequest originalFile, randomRequest originalFile]"
  unfolding initial_generation_unfolded[OF assms]
  by (simp add: generationFailed_def split: sum.splits prod.splits)

lemma initial_generation_success:
  assumes "originalPhoto st = Some photo"
    and "dataURLtoFile (decoder env) photo ''original.jpg'' = Inr originalFile"
    and "readResponse (firstAnswer env) = Inr blob1" and "readResponse (secondAnswer env) = Inr blob2"
    and "reader env blob1 = Some url1" and "reader env blob2 = Some url2"
  shows "after (generateInitialDesigns env st) =
           (generating st)
             \<lparr>designs := Some (\<lparr>design_id = ''1'', design_imageUrl = url1\<rparr>,
                               \<lparr>design_id = ''2'', design_imageUrl = url2\<rparr>),
              isLoading := False\<rparr>"
  unfolding initial_generation_unfolded[OF assms(1,2)]
  using assms(3-6) by (simp add: promiseAll_both blobToDataURL_def)

lemma initial_generation_rejected:
  assumes "originalPhoto st = Some photo"
    and "dataURLtoFile (decoder env) photo ''original.jpg'' = Inr originalFile"
    and "readResponse (firstAnswer env) = Inl e1 \<or> readResponse (secondAnswer env) = Inl e2"
  shows "\<exists>e. (readResponse (firstAnswer env) = Inl e \<or> readResponse (secondAnswer env) = Inl e)
           \<and> after (generateInitialDesigns env st) =
               (generating st)\<lparr>errorMessage := Some (messageOf e), isLoading := False\<rparr>"
proof -
  from promiseAll_rejects[OF assms(3), of "requestOrder env"]
  obtain e where e: "promiseAll (requestOrder env) (readResponse (firstAnswer env))
                       (readResponse (secondAnswer env)) = Inl e"
    and which: "readResponse (firstAnswer env) = Inl e \<or> readResponse (secondAnswer env) = Inl e"
    by blast
  have "after (generateInitialDesigns env st) =
          (generating st)\<lparr>errorMessage := Some (messageOf e), isLoading := False\<rparr>"
    unfolding initial_generation_unfolded[OF assms(1,2)]
    by (simp add: e generationFailed_def)
  with which show ?thesis by blast
qed

lemma http_failure_message:
  "readResponse (Resolved r) = Inl e \<Longrightarrow> body r = Inr errorText \<Longrightarrow> messageOf e \<noteq> []"
  by (auto simp add: readResponse_def messageOf_def split: if_splits)

lemma render_failed:
  "designs st = None \<Longrightarrow> message \<noteq> [] \<Longrightarrow>
   render ((generating st)\<lparr>errorMessage := Some message, isLoading := False\<rparr>) = RetryView message"
  by (simp add: render_def generating_def)

lemma render_generating: "render (generating st) = GeneratingView"
  by (simp add: render_def generating_def)
lemma initial_generation_keeps_photo:
  assumes "originalPhoto st = Some photo"
    and "dataURLtoFile (decoder env) photo ''original.jpg'' = Inr originalFile"
  shows "originalPhoto (after (generateInitialDesigns env st)) = Some photo"
  unfolding initial_generation_unfolded[OF assms]
  using assms(1) by (simp add: generationFailed_def generating_def split: sum.splits prod.splits)

lemma retry_requests:
  assumes "originalPhoto st = Some photo"
    and "dataURLtoFile (decoder env) photo ''original.jpg'' = Inr originalFile"
  shows "requests (retry env st) = [randomRequest originalFile, randomRequest originalFile]"
  using assms initial_generation_requests[of "st\<lparr>errorMessage := None\<rparr>" photo env originalFile]
  by (simp add: retry_def)

text \<open>
  Claim C4. For a comparison screen that holds a photo \<open>dataURLtoFile\<close> accepts and has
  no designs yet, \<open>generateInitialDesigns\<close> sends exactly two requests, both to
  \<open>generate-random\<close> with the photo as the only file. While they are out no design is
  set and the spinner is rendered. When both requests resolve and both blobs convert,
  slot 0 is the image of the first request and slot 1 that of the second, whichever
  settles first. When either request rejects, no design is set, the error message is
  that of a rejected request, and the Retry view is rendered whenever that message is
  not empty, as it is for every response with a failure status. Retry sends the two
  requests again.
\<close>

theorem initial_generation_two_requests_all_or_nothing:
  assumes "originalPhoto st = Some photo"
    and "dataURLtoFile (decoder env) photo ''original.jpg'' = Inr originalFile"
    and "designs st = None"
  shows "requests (generateInitialDesigns env st) =
           [randomRequest originalFile, randomRequest originalFile]
         \<and> request_url (randomRequest originalFile) = ''http://localhost:8000/tiles/generate-random/''
         \<and> request_files (randomRequest originalFile) = [originalFile]
         \<and> designs (generating st) = None
         \<and> render (generating st) = GeneratingView
         \<and> (\<forall>blob1 blob2 url1 url2.
               readResponse (firstAnswer env) = Inr blob1 \<and> readResponse (secondAnswer env) = Inr blob2
               \<and> reader env blob1 = Some url1 \<and> reader env blob2 = Some url2 \<longrightarrow>
               (\<forall>o1 o2. designs (after (generateInitialDesigns
                            (env\<lparr>requestOrder := o1, conversionOrder := o2\<rparr>) st)) =
                  Some (\<lparr>design_id = ''1'', design_imageUrl = url1\<rparr>,
                        \<lparr>design_id = ''2'', design_imageUrl = url2\<rparr>)))
         \<and> (\<forall>e1 e2.
               readResponse (firstAnswer env) = Inl e1 \<or> readResponse (secondAnswer env) = Inl e2 \<longrightarrow>
               designs (after (generateInitialDesigns env st)) = None
               \<and> \<not> isLoading (after (generateInitialDesigns env st))
               \<and> (\<exists>e. (readResponse (firstAnswer env) = Inl e \<or> readResponse (secondAnswer env) = Inl e)
                     \<and> errorMessage (after (generateInitialDesigns env st)) = Some (messageOf e)
                     \<and> (messageOf e \<noteq> [] \<longrightarrow>
                          render (after (generateInitialDesigns env st)) = RetryView (messageOf e))))
         \<and> (\<forall>r e errorText.
               readResponse (Resolved r) = Inl e \<and> body r = Inr errorText \<longrightarrow> messageOf e \<noteq> [])
         \<and> requests (retry env (after (generateInitialDesigns env st))) =
             [randomRequest originalFile, randomRequest originalFile]"
proof (intro conjI allI impI)
  show "requests (generateInitialDesigns env st) =
          [randomRequest originalFile, randomRequest originalFile]"
    using assms(1,2) by (rule initial_generation_requests)
  show "request_url (randomRequest originalFile) = ''http://localhost:8000/tiles/generate-random/''"
    by (simp add: randomRequest_def)
  show "request_files (randomRequest originalFile) = [originalFile]"
    by (simp add: randomRequest_def)
  show "designs (generating st) = None"
    using assms(3) by (simp add: generating_def)
  show "render (generating st) = GeneratingView"
    by (rule render_generating)
next
  fix blob1 blob2 url1 url2 o1 o2
  assume a: "readResponse (firstAnswer env) = Inr blob1 \<and> readResponse (secondAnswer env) = Inr blob2
             \<and> reader env blob1 = Some url1 \<and> reader env blob2 = Some url2"
  let ?env = "env\<lparr>requestOrder := o1, conversionOrder := o2\<rparr>"
  have f: "dataURLtoFile (decoder ?env) photo ''original.jpg'' = Inr originalFile"
    using assms(2) by simp
  have r1: "readResponse (firstAnswer ?env) = Inr blob1"
    and r2: "readResponse (secondAnswer ?env) = Inr blob2"
    and c1: "reader ?env blob1 = Some url1" and c2: "reader ?env blob2 = Some url2"
    using a by simp_all
  have "after (generateInitialDesigns ?env st) =
          (generating st)
            \<lparr>designs := Some (\<lparr>design_id = ''1'', design_imageUrl = url1\<rparr>,
                              \<lparr>design_id = ''2'', design_imageUrl = url2\<rparr>),
             isLoading := False\<rparr>"
    using assms(1) f r1 r2 c1 c2 by (rule initial_generation_success)
  then show "designs (after (generateInitialDesigns ?env st)) =
          Some (\<lparr>design_id = ''1'', design_imageUrl = url1\<rparr>,
                \<lparr>design_id = ''2'', design_imageUrl = url2\<rparr>)"
    by simp
next
  fix e1 e2
  assume b: "readResponse (firstAnswer env) = Inl e1 \<or> readResponse (secondAnswer env) = Inl e2"
  from initial_generation_rejected[OF assms(1,2) b]
  obtain e where e: "readResponse (firstAnswer env) = Inl e \<or> readResponse (secondAnswer env) = Inl e"
    and aft: "after (generateInitialDesigns env st) =
                (generating st)\<lparr>errorMessage := Some (messageOf e), isLoading := False\<rparr>"
    by blast
  show "designs (after (generateInitialDesigns env st)) = None"
    using assms(3) by (simp add: aft generating_def)
  show "\<not> isLoading (after (generateInitialDesigns env st))"
    by (simp add: aft)
  show "\<exists>e. (readResponse (firstAnswer env) = Inl e \<or> readResponse (secondAnswer env) = Inl e)
          \<and> errorMessage (after (generateInitialDesigns env st)) = Some (messageOf e)
          \<and> (messageOf e \<noteq> [] \<longrightarrow>
               render (after (generateInitialDesigns env st)) = RetryView (messageOf e))"
    using e aft render_failed[OF assms(3), of "messageOf e"] by auto
next
  fix r e errorText
  assume "readResponse (Resolved r) = Inl e \<and> body r = Inr errorText"
  then show "messageOf e \<noteq> []"
    using http_failure_message by blast
next
  show "requests (retry env (after (generateInitialDesigns env st))) =
          [randomRequest originalFile, randomRequest originalFile]"
    using initial_generation_keeps_photo[OF assms(1,2)] assms(2) by (rule retry_requests)
qed

lemma compareReady_photo:
  "originalPhoto compareReady = Some pickedFile \<and> designs compareReady = None"
  by (simp add: compareReady_def compareMounted_def compareInitial_def)

lemma pickedFile_accepted:
  "dataURLtoFile atobExample pickedFile ''original.jpg'' = Inr originalExample"
  by (simp add: pickedFile_def originalExample_def dataURLtoFile_example)

lemma serviceDown_answers:
  "readResponse (firstAnswer serviceDown) = Inl (Error ''Failed to generate design: 500 model unavailable'')
   \<and> readResponse (secondAnswer serviceDown) = Inl (Error ''Failed to generate design: 500 model unavailable'')"
  by (simp add: serviceDown_def readResponse_def ok_def toString.simps digit_def)

lemma serviceUp_answers:
  "readResponse (firstAnswer serviceUp) = Inr \<lparr>blob_type = ''image/png'', blob_bytes = ''AAAA''\<rparr>
   \<and> readResponse (secondAnswer serviceUp) = Inr \<lparr>blob_type = ''image/png'', blob_bytes = ''BBBB''\<rparr>
   \<and> reader serviceUp \<lparr>blob_type = ''image/png'', blob_bytes = ''AAAA''\<rparr> = Some ''data:image/png;base64,AAAA''
   \<and> reader serviceUp \<lparr>blob_type = ''image/png'', blob_bytes = ''BBBB''\<rparr> = Some ''data:image/png;base64,BBBB''"
  by (simp add: serviceUp_def readResponse_def ok_def readerExample_def)

theorem initial_generation_witness:
  "originalPhoto compareReady = Some pickedFile
   \<and> dataURLtoFile (decoder serviceDown) pickedFile ''original.jpg'' = Inr originalExample
   \<and> dataURLtoFile (decoder serviceUp) pickedFile ''original.jpg'' = Inr originalExample
   \<and> designs compareReady = None
   \<and> requests (generateInitialDesigns serviceDown compareReady) =
       [randomRequest originalExample, randomRequest originalExample]
   \<and> readResponse (firstAnswer serviceDown) =
       Inl (Error ''Failed to generate design: 500 model unavailable'')
   \<and> designs (after (generateInitialDesigns serviceDown compareReady)) = None
   \<and> render (after (generateInitialDesigns serviceDown compareReady)) =
       RetryView ''Failed to generate design: 500 model unavailable''
   \<and> designs (after (generateInitialDesigns serviceUp compareReady)) =
       Some (\<lparr>design_id = ''1'', design_imageUrl = ''data:image/png;base64,AAAA''\<rparr>,
             \<lparr>design_id = ''2'', design_imageUrl = ''data:image/png;base64,BBBB''\<rparr>)"
proof -
  have d1: "dataURLtoFile (decoder serviceDown) pickedFile ''original.jpg'' = Inr originalExample"
    using pickedFile_accepted by (simp add: serviceDown_def)
  have d2: "dataURLtoFile (decoder serviceUp) pickedFile ''original.jpg'' = Inr originalExample"
    using pickedFile_accepted by (simp add: serviceUp_def)
  have p: "originalPhoto compareReady = Some pickedFile" and n: "designs compareReady = None"
    using compareReady_photo by simp_all
  have same: "serviceUp\<lparr>requestOrder := SecondSettlesFirst, conversionOrder := FirstSettlesFirst\<rparr>
              = serviceUp"
    by (simp add: serviceUp_def)
  have msg: "messageOf (Error ''Failed to generate design: 500 model unavailable'')
             = ''Failed to generate design: 500 model unavailable''"
    by (simp add: messageOf_def)
  from initial_generation_two_requests_all_or_nothing[OF p d1 n] serviceDown_answers msg
  have down: "requests (generateInitialDesigns serviceDown compareReady) =
                [randomRequest originalExample, randomRequest originalExample]
              \<and> designs (after (generateInitialDesigns serviceDown compareReady)) = None
              \<and> render (after (generateInitialDesigns serviceDown compareReady)) =
                  RetryView ''Failed to generate design: 500 model unavailable''"
    by auto
  from initial_generation_two_requests_all_or_nothing[OF p d2 n] serviceUp_answers
  have "\<forall>o1 o2. designs (after (generateInitialDesigns
           (serviceUp\<lparr>requestOrder := o1, conversionOrder := o2\<rparr>) compareReady)) =
       Some (\<lparr>design_id = ''1'', design_imageUrl = ''data:image/png;base64,AAAA''\<rparr>,
             \<lparr>design_id = ''2'', design_imageUrl = ''data:image/png;base64,BBBB''\<rparr>)"
    by blast
  then have up: "designs (after (generateInitialDesigns serviceUp compareReady)) =
       Some (\<lparr>design_id = ''1'', design_imageUrl = ''data:image/png;base64,AAAA''\<rparr>,
             \<lparr>design_id = ''2'', design_imageUrl = ''data:image/png;base64,BBBB''\<rparr>)"
    using same by metis
  show ?thesis
    using p n d1 d2 down up serviceDown_answers by simp
qed

lemma digit_inj: "a < 10 \<Longrightarrow> b < 10 \<Longrightarrow> digit a = digit b \<Longrightarrow> a = b"
proof -
  assume a: "a < 10" and b: "b < 10" and eq: "digit a = digit b"
  have d: "distinct ''0123456789''" by simp
  have "length ''0123456789'' = 10" by simp
  with a b eq d show "a = b"
    unfolding digit_def by (metis nth_eq_iff_index_eq)
qed

lemma toString_nonempty: "toString n \<noteq> []"
  by (subst toString.simps) simp

lemma toString_inj: "toString a = toString b \<Longrightarrow> a = b"
proof (induction a arbitrary: b rule: toString.induct)
  case (1 n)
  show ?case
  proof (cases "n < 10")
    case small: True
    show ?thesis
    proof (cases "b < 10")
      case True
      with small "1.prems" have "digit n = digit b"
        by (simp add: toString.simps[of n] toString.simps[of b])
      with small True show ?thesis by (rule digit_inj)
    next
      case False
      with small "1.prems" have "toString (b div 10) = []"
        by (simp add: toString.simps[of n] toString.simps[of b])
      then show ?thesis by (simp add: toString_nonempty)
    qed
  next
    case large: False
    show ?thesis
    proof (cases "b < 10")
      case True
      with large "1.prems" have "toString (n div 10) = []"
        by (simp add: toString.simps[of n] toString.simps[of b])
      then show ?thesis by (simp add: toString_nonempty)
    next
      case False
      with large "1.prems" have eq: "toString (n div 10) = toString (b div 10)"
        and dg: "digit (n mod 10) = digit (b mod 10)"
        by (simp_all add: toString.simps[of n] toString.simps[of b])
      from "1.IH"[OF large eq] have "n div 10 = b div 10" .
      moreover from dg have "n mod 10 = b mod 10" by (intro digit_inj) simp_all
      ultimately show ?thesis by (metis div_mult_mod_eq)
    qed
  qed
qed
lemma design_choice_unfolded:
  assumes "originalPhoto st = Some photo"
    and "dataURLtoFile (decoder env) photo ''original.jpg'' = Inr originalFile"
  shows "handleDesignChoice env chosenIndex st =
     (case readResponse (firstAnswer env) of
        Inl e \<Rightarrow> regenerationFailed chosenIndex st [randomRequest originalFile] e
      | Inr newDesignBlob \<Rightarrow>
          (case blobToDataURL (reader env) newDesignBlob of
             Inl e \<Rightarrow> regenerationFailed chosenIndex st [randomRequest originalFile] e
           | Inr newDesignUrl \<Rightarrow>
               \<lparr>after = (regenerating chosenIndex st)
                  \<lparr>designs :=
                     replaceSlot (otherIndexOf chosenIndex)
                       \<lparr>design_id = toString (clock env), design_imageUrl = newDesignUrl\<rparr>
                       (designs st),
                   loadingDesignIndex := None\<rparr>,
                requests = [randomRequest originalFile], errors = []\<rparr>))"
  using assms dataURLtoFile_nonempty[OF assms(2)]
  by (simp add: handleDesignChoice_def generateDesigns_random)

lemma design_choice_requests:
  assumes "originalPhoto st = Some photo"
    and "dataURLtoFile (decoder env) photo ''original.jpg'' = Inr originalFile"
  shows "requests (handleDesignChoice env chosenIndex st) = [randomRequest originalFile]"
  unfolding design_choice_unfolded[OF assms]
  by (simp add: regenerationFailed_def split: sum.splits)

lemma design_choice_success:
  assumes "originalPhoto st = Some photo"
    and "dataURLtoFile (decoder env) photo ''original.jpg'' = Inr originalFile"
    and "designs st = Some (d0, d1)"
    and "readResponse (firstAnswer env) = Inr newBlob" and "reader env newBlob = Some newUrl"
  shows "designs (after (handleDesignChoice env chosenIndex st)) =
           Some (if chosenIndex = 0
                 then (d0, \<lparr>design_id = toString (clock env), design_imageUrl = newUrl\<rparr>)
                 else (\<lparr>design_id = toString (clock env), design_imageUrl = newUrl\<rparr>, d1))"
  unfolding design_choice_unfolded[OF assms(1,2)]
  using assms(3-5) by (simp add: blobToDataURL_def replaceSlot_def otherIndexOf_def)

lemma design_choice_failure:
  assumes "originalPhoto st = Some photo"
    and "dataURLtoFile (decoder env) photo ''original.jpg'' = Inr originalFile"
    and "readResponse (firstAnswer env) = Inl e
         \<or> (readResponse (firstAnswer env) = Inr newBlob \<and> reader env newBlob = None)"
  shows "designs (after (handleDesignChoice env chosenIndex st)) = designs st
         \<and> errorMessage (after (handleDesignChoice env chosenIndex st)) =
             Some ''Failed to generate new design. Please try again.''
         \<and> loadingDesignIndex (after (handleDesignChoice env chosenIndex st)) = None"
  unfolding design_choice_unfolded[OF assms(1,2)]
  using assms(3)
  by (auto simp add: blobToDataURL_def regenerationFailed_def regenerating_def)

text \<open>
  Claim C3, as the code has it. For a comparison screen that holds a photo
  \<open>dataURLtoFile\<close> accepts and shows two designs, and a chosen index 0 or 1,
  \<open>handleDesignChoice\<close> sends exactly one request. While it is out the other slot is
  marked as loading and both designs are as before. When the request resolves and the
  blob converts, the chosen slot is unchanged and the other slot holds the new image
  under the decimal digits of the clock reading at that moment; this identifier differs
  from the replaced one whenever the replaced one is the digits of a different reading.
  When the request or the conversion fails, both designs are as before.
\<close>

theorem design_choice_replaces_other_slot:
  assumes "originalPhoto st = Some photo"
    and "dataURLtoFile (decoder env) photo ''original.jpg'' = Inr originalFile"
    and "designs st = Some (d0, d1)"
    and "chosenIndex = 0 \<or> chosenIndex = 1"
  shows "requests (handleDesignChoice env chosenIndex st) = [randomRequest originalFile]
         \<and> designs (regenerating chosenIndex st) = Some (d0, d1)
         \<and> loadingDesignIndex (regenerating chosenIndex st) = Some (1 - chosenIndex)
         \<and> (\<forall>newBlob newUrl.
               readResponse (firstAnswer env) = Inr newBlob \<and> reader env newBlob = Some newUrl \<longrightarrow>
               designs (after (handleDesignChoice env chosenIndex st)) =
                 Some (if chosenIndex = 0
                       then (d0, \<lparr>design_id = toString (clock env), design_imageUrl = newUrl\<rparr>)
                       else (\<lparr>design_id = toString (clock env), design_imageUrl = newUrl\<rparr>, d1)))
         \<and> (\<forall>minted.
               design_id (if chosenIndex = 0 then d1 else d0) = toString minted \<and> minted \<noteq> clock env \<longrightarrow>
               toString (clock env) \<noteq> design_id (if chosenIndex = 0 then d1 else d0))
         \<and> (\<forall>e newBlob.
               readResponse (firstAnswer env) = Inl e
               \<or> (readResponse (firstAnswer env) = Inr newBlob \<and> reader env newBlob = None) \<longrightarrow>
               designs (after (handleDesignChoice env chosenIndex st)) = Some (d0, d1))"
proof (intro conjI allI impI)
  show "requests (handleDesignChoice env chosenIndex st) = [randomRequest originalFile]"
    using assms(1,2) by (rule design_choice_requests)
  show "designs (regenerating chosenIndex st) = Some (d0, d1)"
    using assms(3) by (simp add: regenerating_def)
  show "loadingDesignIndex (regenerating chosenIndex st) = Some (1 - chosenIndex)"
    using assms(4) by (auto simp add: regenerating_def otherIndexOf_def)
next
  fix newBlob newUrl
  assume "readResponse (firstAnswer env) = Inr newBlob \<and> reader env newBlob = Some newUrl"
  then have "readResponse (firstAnswer env) = Inr newBlob" and "reader env newBlob = Some newUrl"
    by simp_all
  with assms(1-3)
  show "designs (after (handleDesignChoice env chosenIndex st)) =
          Some (if chosenIndex = 0
                then (d0, \<lparr>design_id = toString (clock env), design_imageUrl = newUrl\<rparr>)
                else (\<lparr>design_id = toString (clock env), design_imageUrl = newUrl\<rparr>, d1))"
    by (rule design_choice_success)
next
  fix minted
  assume "design_id (if chosenIndex = 0 then d1 else d0) = toString minted \<and> minted \<noteq> clock env"
  then show "toString (clock env) \<noteq> design_id (if chosenIndex = 0 then d1 else d0)"
    using toString_inj[of "clock env" minted] by auto
next
  fix e newBlob
  assume "readResponse (firstAnswer env) = Inl e
          \<or> (readResponse (firstAnswer env) = Inr newBlob \<and> reader env newBlob = None)"
  from design_choice_failure[OF assms(1,2) this] assms(3)
  show "designs (after (handleDesignChoice env chosenIndex st)) = Some (d0, d1)"
    by simp
qed

lemma clock_digits: "toString 1700000000000 = ''1700000000000''"
  by (simp add: toString.simps digit_def)

lemma design_choice_keeps_photo:
  assumes "originalPhoto st = Some photo"
    and "dataURLtoFile (decoder env) photo ''original.jpg'' = Inr originalFile"
  shows "originalPhoto (after (handleDesignChoice env chosenIndex st)) = Some photo"
  unfolding design_choice_unfolded[OF assms]
  using assms(1) by (simp add: regenerationFailed_def regenerating_def split: sum.splits)

lemma compareShown_state:
  "originalPhoto compareShown = Some pickedFile
   \<and> designs compareShown =
       Some (\<lparr>design_id = ''1'', design_imageUrl = ''data:image/png;base64,AAAA''\<rparr>,
             \<lparr>design_id = ''1700000000000'', design_imageUrl = ''data:image/png;base64,DDDD''\<rparr>)"
proof -
  let ?s1 = "after (generateInitialDesigns serviceUp compareReady)"
  have p: "originalPhoto compareReady = Some pickedFile"
    using compareReady_photo by simp
  have f: "dataURLtoFile (decoder serviceUp) pickedFile ''original.jpg'' = Inr originalExample"
    using pickedFile_accepted by (simp add: serviceUp_def)
  have g: "dataURLtoFile (decoder serviceAgain) pickedFile ''original.jpg'' = Inr originalExample"
    using pickedFile_accepted by (simp add: serviceAgain_def serviceUp_def)
  have s1: "?s1 = (generating compareReady)
              \<lparr>designs := Some (\<lparr>design_id = ''1'', design_imageUrl = ''data:image/png;base64,AAAA''\<rparr>,
                                \<lparr>design_id = ''2'', design_imageUrl = ''data:image/png;base64,BBBB''\<rparr>),
               isLoading := False\<rparr>"
    using p f serviceUp_answers[THEN conjunct1] serviceUp_answers[THEN conjunct2, THEN conjunct1]
      serviceUp_answers[THEN conjunct2, THEN conjunct2, THEN conjunct1]
      serviceUp_answers[THEN conjunct2, THEN conjunct2, THEN conjunct2]
    by (rule initial_generation_success)
  have p1: "originalPhoto ?s1 = Some pickedFile"
    using p f by (rule initial_generation_keeps_photo)
  have d1: "designs ?s1 =
      Some (\<lparr>design_id = ''1'', design_imageUrl = ''data:image/png;base64,AAAA''\<rparr>,
            \<lparr>design_id = ''2'', design_imageUrl = ''data:image/png;base64,BBBB''\<rparr>)"
    by (simp add: s1)
  have a: "readResponse (firstAnswer serviceAgain) = Inr \<lparr>blob_type = ''image/png'', blob_bytes = ''DDDD''\<rparr>"
    by (simp add: serviceAgain_def readResponse_def ok_def)
  have r: "reader serviceAgain \<lparr>blob_type = ''image/png'', blob_bytes = ''DDDD''\<rparr>
           = Some ''data:image/png;base64,DDDD''"
    by (simp add: serviceAgain_def serviceUp_def readerExample_def)
  have c: "toString (clock serviceAgain) = ''1700000000000''"
    by (simp add: serviceAgain_def serviceUp_def clock_digits)
  have "designs compareShown =
       Some (\<lparr>design_id = ''1'', design_imageUrl = ''data:image/png;base64,AAAA''\<rparr>,
             \<lparr>design_id = ''1700000000000'', design_imageUrl = ''data:image/png;base64,DDDD''\<rparr>)"
    unfolding compareShown_def
    using design_choice_success[OF p1 g d1 a r, of 0] c by simp
  moreover have "originalPhoto compareShown = Some pickedFile"
    unfolding compareShown_def using p1 g by (rule design_choice_keeps_photo)
  ultimately show ?thesis by simp
qed

theorem design_choice_witness:
  "originalPhoto compareShown = Some pickedFile
   \<and> dataURLtoFile (decoder serviceUp) pickedFile ''original.jpg'' = Inr originalExample
   \<and> dataURLtoFile (decoder serviceDown) pickedFile ''original.jpg'' = Inr originalExample
   \<and> designs compareShown =
       Some (\<lparr>design_id = ''1'', design_imageUrl = ''data:image/png;base64,AAAA''\<rparr>,
             \<lparr>design_id = ''1700000000000'', design_imageUrl = ''data:image/png;base64,DDDD''\<rparr>)
   \<and> requests (handleDesignChoice serviceUp 1 compareShown) = [randomRequest originalExample]
   \<and> designs (after (handleDesignChoice serviceUp 1 compareShown)) =
       Some (\<lparr>design_id = ''1700000000000'', design_imageUrl = ''data:image/png;base64,AAAA''\<rparr>,
             \<lparr>design_id = ''1700000000000'', design_imageUrl = ''data:image/png;base64,DDDD''\<rparr>)
   \<and> ''1'' = toString 1 \<and> (1::nat) \<noteq> clock serviceUp
   \<and> toString (clock serviceUp) \<noteq> ''1''
   \<and> readResponse (firstAnswer serviceDown) =
       Inl (Error ''Failed to generate design: 500 model unavailable'')
   \<and> designs (after (handleDesignChoice serviceDown 0 compareShown)) = designs compareShown"
proof -
  have p: "originalPhoto compareShown = Some pickedFile"
    and d: "designs compareShown =
       Some (\<lparr>design_id = ''1'', design_imageUrl = ''data:image/png;base64,AAAA''\<rparr>,
             \<lparr>design_id = ''1700000000000'', design_imageUrl = ''data:image/png;base64,DDDD''\<rparr>)"
    using compareShown_state by simp_all
  have f1: "dataURLtoFile (decoder serviceUp) pickedFile ''original.jpg'' = Inr originalExample"
    using pickedFile_accepted by (simp add: serviceUp_def)
  have f2: "dataURLtoFile (decoder serviceDown) pickedFile ''original.jpg'' = Inr originalExample"
    using pickedFile_accepted by (simp add: serviceDown_def)
  have i1: "(1::nat) = 0 \<or> (1::nat) = 1" and i0: "(0::nat) = 0 \<or> (0::nat) = 1" by simp_all
  have c: "clock serviceUp = 1700000000000" by (simp add: serviceUp_def)
  have one: "''1'' = toString 1" by (simp add: toString.simps digit_def)
  from design_choice_replaces_other_slot[OF p f1 d i1] serviceUp_answers c clock_digits one
  have up: "requests (handleDesignChoice serviceUp 1 compareShown) = [randomRequest originalExample]
     \<and> designs (after (handleDesignChoice serviceUp 1 compareShown)) =
       Some (\<lparr>design_id = ''1700000000000'', design_imageUrl = ''data:image/png;base64,AAAA''\<rparr>,
             \<lparr>design_id = ''1700000000000'', design_imageUrl = ''data:image/png;base64,DDDD''\<rparr>)
     \<and> toString (clock serviceUp) \<noteq> ''1''"
    by auto
  from design_choice_replaces_other_slot[OF p f2 d i0] serviceDown_answers
  have down: "designs (after (handleDesignChoice serviceDown 0 compareShown)) = designs compareShown"
    using d by auto
  show ?thesis
    using p d f1 f2 up down one c serviceDown_answers by simp
qed

text \<open>
  The claim as written also says that the new identifier is always distinct from the
  identifier it replaces. It is the clock reading and nothing else: \<open>compareShown\<close> is
  the screen after the initial generation and one regeneration of slot 1 at the reading
  1700000000000; when slot 1 is replaced once more at the same reading, the new design
  has the identifier of the one it replaces.
\<close>

theorem design_choice_identifier_not_always_fresh:
  "designs compareShown =
     Some (\<lparr>design_id = ''1'', design_imageUrl = ''data:image/png;base64,AAAA''\<rparr>,
           \<lparr>design_id = ''1700000000000'', design_imageUrl = ''data:image/png;base64,DDDD''\<rparr>)
   \<and> designs (after (handleDesignChoice serviceUp 0 compareShown)) =
     Some (\<lparr>design_id = ''1'', design_imageUrl = ''data:image/png;base64,AAAA''\<rparr>,
           \<lparr>design_id = ''1700000000000'', design_imageUrl = ''data:image/png;base64,AAAA''\<rparr>)
   \<and> \<not> (design_id (snd (the (designs (after (handleDesignChoice serviceUp 0 compareShown)))))
          \<noteq> design_id (snd (the (designs compareShown))))"
proof -
  have p: "originalPhoto compareShown = Some pickedFile"
    and d: "designs compareShown =
       Some (\<lparr>design_id = ''1'', design_imageUrl = ''data:image/png;base64,AAAA''\<rparr>,
             \<lparr>design_id = ''1700000000000'', design_imageUrl = ''data:image/png;base64,DDDD''\<rparr>)"
    using compareShown_state by simp_all
  have f: "dataURLtoFile (decoder serviceUp) pickedFile ''original.jpg'' = Inr originalExample"
    using pickedFile_accepted by (simp add: serviceUp_def)
  have c: "toString (clock serviceUp) = ''1700000000000''"
    by (simp add: serviceUp_def clock_digits)
  have "designs (after (handleDesignChoice serviceUp 0 compareShown)) =
     Some (\<lparr>design_id = ''1'', design_imageUrl = ''data:image/png;base64,AAAA''\<rparr>,
           \<lparr>design_id = ''1700000000000'', design_imageUrl = ''data:image/png;base64,AAAA''\<rparr>)"
    using design_choice_success[OF p f d, of _ _ 0] serviceUp_answers c by simp
  with d show ?thesis by simp
qed

end
